theory Spec2Isabelle
  imports Main "HOL-Library.Word" "HOL-Library.Sublist"
begin

unbundle bit_operations_syntax

section \<open>The launcher of src/dist\_tools/launcher.c\<close>

text \<open>
  The repository holds one C function, the entry point of a Windows launcher, in two copies:
  \<^verbatim>\<open>src/dist_tools/launcher.c\<close> (with a \<^verbatim>\<open>DEBUG_MODE\<close> switch) and
  \<^verbatim>\<open>src/dist_output/dist_tools/launcher.c\<close> (the release text alone). The model below has
  the build switch as a boolean parameter; with \<open>debug = False\<close> it is the second file line
  by line.

  The function talks to the operating system and to the C runtime. Their answers are the
  fields of the record \<open>os\<close>; what the program does to the process (working directory,
  environment block, dialogs and console lines, child processes, handles) is the record
  \<open>state\<close>, passed through and returned.
\<close>

subsection \<open>Characters and header constants\<close>

abbreviation backslash :: char where "backslash \<equiv> CHR 0x5C"
abbreviation dquote :: char where "dquote \<equiv> CHR 0x22"
abbreviation newline :: char where "newline \<equiv> CHR 0x0A"

text \<open>
  The Windows headers are not part of the repository. The constants the program takes from
  them are given their header values: \<^verbatim>\<open>MAX_PATH\<close> is 260,
  \<^verbatim>\<open>INVALID_FILE_ATTRIBUTES\<close> is \<^verbatim>\<open>(DWORD)-1\<close>, \<^verbatim>\<open>CREATE_NO_WINDOW\<close> is
  \<^verbatim>\<open>0x08000000\<close>, \<^verbatim>\<open>MB_OK\<close> is 0, \<^verbatim>\<open>MB_ICONERROR\<close> is \<^verbatim>\<open>0x10\<close> and
  \<^verbatim>\<open>INFINITE\<close> is \<^verbatim>\<open>0xFFFFFFFF\<close>.
\<close>

definition MAX_PATH :: nat where
  "MAX_PATH = 260"

definition INVALID_FILE_ATTRIBUTES :: "32 word" where
  "INVALID_FILE_ATTRIBUTES = 0xFFFFFFFF"

definition CREATE_NO_WINDOW :: "32 word" where
  "CREATE_NO_WINDOW = 0x08000000"

definition MB_OK :: "32 word" where
  "MB_OK = 0"

definition MB_ICONERROR :: "32 word" where
  "MB_ICONERROR = 0x10"

definition INFINITE :: "32 word" where
  "INFINITE = 0xFFFFFFFF"

subsection \<open>The process state and the operating system\<close>

type_synonym handle = nat

type_synonym environment = "string \<rightharpoonup> string"

record process_information =
  hProcess :: handle
  hThread :: handle

text \<open>What a created child process starts with.\<close>

record child =
  command_line :: string
  creation_flags :: "32 word"
  child_environ :: environment
  child_dir :: string

text \<open>
  The calls the program makes, in program order, each with its arguments and its result:
  the number returned by \<open>Ev_GetModuleFileName\<close>, the success of \<open>Ev_SetCurrentDirectory\<close>
  and of \<open>Ev_CreateProcess\<close>, the attributes returned by \<open>Ev_GetFileAttributes\<close>, the
  return value of \<open>Ev_putenv\<close>.
\<close>

datatype event =
    Ev_GetModuleFileName nat nat
  | Ev_SetCurrentDirectory string bool
  | Ev_GetFileAttributes string "32 word"
  | Ev_putenv string int
  | Ev_CreateProcess string "32 word" bool
  | Ev_MessageBox string string "32 word"
  | Ev_printf string
  | Ev_system string
  | Ev_WaitForSingleObject handle "32 word"
  | Ev_CloseHandle handle

record state =
  cur_dir :: string
  environ :: environment
  events :: "event list"
  children :: "child list"
  handles :: "handle list"

text \<open>
  The answers of the operating system and of the C runtime:
  \<^item> \<open>os_image_path\<close>: the path of the running image, \<open>None\<close> when the query fails;
  \<^item> \<open>os_chdir_ok\<close>: whether the working directory can be set to a path;
  \<^item> \<open>os_file_attributes\<close>: the result of the file-attributes query on a path;
  \<^item> \<open>os_putenv_result\<close>: the return value of \<^verbatim>\<open>_putenv\<close> on a string (0 is success);
  \<^item> \<open>os_create_process\<close>: the two handles of the created process, \<open>None\<close> when process
    creation fails; it may depend on the command line, the flags, the environment and the
    working directory;
  \<^item> \<open>os_last_error\<close>: what \<^verbatim>\<open>GetLastError\<close> returns after a failed process creation;
  \<^item> \<open>os_child_exit_status\<close>: the exit status of the child; the program has no call that
    reads it.
\<close>

record os =
  os_image_path :: "string option"
  os_chdir_ok :: "string \<Rightarrow> bool"
  os_file_attributes :: "string \<Rightarrow> 32 word"
  os_putenv_result :: "string \<Rightarrow> int"
  os_create_process :: "string \<Rightarrow> 32 word \<Rightarrow> environment \<Rightarrow> string \<Rightarrow> process_information option"
  os_last_error :: "32 word"
  os_child_exit_status :: "32 word"

text \<open>
  The parameters of the entry point: \<^verbatim>\<open>main(argc, argv)\<close> in the debug build,
  \<^verbatim>\<open>WinMain(hInstance, hPrevInstance, lpCmdLine, nCmdShow)\<close> otherwise.
\<close>

datatype entry_args =
    MainArgs int "string list"
  | WinMainArgs handle handle string int

text \<open>
  How a run ends: the value returned from the entry point, or a write beyond the end of one
  of the fixed-size stack buffers, after which C leaves the behaviour undefined.
\<close>

datatype outcome = Exit int | Overrun

subsection \<open>The system calls\<close>

text \<open>
  \<^verbatim>\<open>GetModuleFileName(NULL, buf, nSize)\<close> returns 0 on failure. Otherwise it stores the
  path and returns its length when the path and its terminator fit in \<open>nSize\<close> characters,
  and stores the first \<open>nSize - 1\<close> characters and the terminator and returns \<open>nSize\<close>
  when they do not.
\<close>

definition GetModuleFileName :: "os \<Rightarrow> nat \<Rightarrow> state \<Rightarrow> (nat \<times> string) \<times> state" where
  "GetModuleFileName w nSize st =
     (let (n, buf) =
            (case os_image_path w of
               None \<Rightarrow> (0, [])
             | Some p \<Rightarrow> (if length p < nSize then length p else nSize, take (nSize - 1) p))
      in ((n, buf), st\<lparr>events := events st @ [Ev_GetModuleFileName nSize n]\<rparr>))"

definition SetCurrentDirectory :: "os \<Rightarrow> string \<Rightarrow> state \<Rightarrow> bool \<times> state" where
  "SetCurrentDirectory w path st =
     (if os_chdir_ok w path
      then (True, st\<lparr>cur_dir := path, events := events st @ [Ev_SetCurrentDirectory path True]\<rparr>)
      else (False, st\<lparr>events := events st @ [Ev_SetCurrentDirectory path False]\<rparr>))"

definition GetFileAttributes :: "os \<Rightarrow> string \<Rightarrow> state \<Rightarrow> 32 word \<times> state" where
  "GetFileAttributes w path st =
     (os_file_attributes w path,
      st\<lparr>events := events st @ [Ev_GetFileAttributes path (os_file_attributes w path)]\<rparr>)"

text \<open>
  \<^verbatim>\<open>_putenv("NAME=value")\<close>: on success the variable \<open>NAME\<close> is set to \<open>value\<close>, or
  removed when \<open>value\<close> is empty; on failure (return value \<open>-1\<close>) the environment is as
  before. The name ends at the first \<open>=\<close>.
\<close>

definition putenv_name :: "string \<Rightarrow> string" where
  "putenv_name s = takeWhile (\<lambda>c. c \<noteq> CHR ''='') s"

definition putenv_value :: "string \<Rightarrow> string" where
  "putenv_value s = drop 1 (dropWhile (\<lambda>c. c \<noteq> CHR ''='') s)"

definition putenv :: "os \<Rightarrow> string \<Rightarrow> state \<Rightarrow> int \<times> state" where
  "putenv w s st =
     (let r = os_putenv_result w s;
          env' = (if r \<noteq> 0 then environ st
                  else if putenv_value s = [] then (environ st)(putenv_name s := None)
                  else (environ st)(putenv_name s \<mapsto> putenv_value s))
      in (r, st\<lparr>environ := env', events := events st @ [Ev_putenv s r]\<rparr>))"

text \<open>
  \<^verbatim>\<open>CreateProcess(NULL, cmdLine, NULL, NULL, FALSE, flags, NULL, NULL, &si, &pi)\<close>: the
  child gets the parent's environment block and working directory (both arguments are
  \<^verbatim>\<open>NULL\<close>); on success the two handles of \<^verbatim>\<open>pi\<close> are open in the parent.
\<close>

definition CreateProcess ::
  "os \<Rightarrow> string \<Rightarrow> 32 word \<Rightarrow> state \<Rightarrow> process_information option \<times> state" where
  "CreateProcess w cmdLine flags st =
     (case os_create_process w cmdLine flags (environ st) (cur_dir st) of
        None \<Rightarrow> (None, st\<lparr>events := events st @ [Ev_CreateProcess cmdLine flags False]\<rparr>)
      | Some pi \<Rightarrow>
          (Some pi,
           st\<lparr>events := events st @ [Ev_CreateProcess cmdLine flags True],
              children := children st @
                [\<lparr>command_line = cmdLine, creation_flags = flags,
                  child_environ = environ st, child_dir = cur_dir st\<rparr>],
              handles := hProcess pi # hThread pi # handles st\<rparr>))"

definition GetLastError :: "os \<Rightarrow> 32 word" where
  "GetLastError w = os_last_error w"

definition WaitForSingleObject :: "handle \<Rightarrow> 32 word \<Rightarrow> state \<Rightarrow> state" where
  "WaitForSingleObject h ms st = st\<lparr>events := events st @ [Ev_WaitForSingleObject h ms]\<rparr>"

definition CloseHandle :: "handle \<Rightarrow> state \<Rightarrow> state" where
  "CloseHandle h st =
     st\<lparr>events := events st @ [Ev_CloseHandle h], handles := remove1 h (handles st)\<rparr>"

definition MessageBox :: "string \<Rightarrow> string \<Rightarrow> 32 word \<Rightarrow> state \<Rightarrow> state" where
  "MessageBox text caption type st =
     st\<lparr>events := events st @ [Ev_MessageBox text caption type]\<rparr>"

definition printf :: "string \<Rightarrow> state \<Rightarrow> state" where
  "printf s st = st\<lparr>events := events st @ [Ev_printf s]\<rparr>"

definition system :: "string \<Rightarrow> state \<Rightarrow> state" where
  "system cmd st = st\<lparr>events := events st @ [Ev_system cmd]\<rparr>"

subsection \<open>The C runtime's path functions\<close>

text \<open>
  \<^verbatim>\<open>_splitpath\<close> and \<^verbatim>\<open>_makepath\<close> belong to the C runtime, not to the repository. They
  are written down after the runtime's documentation. \<^verbatim>\<open>_splitpath\<close>: the drive is the
  first two characters when the second is a colon; the directory is what follows up to and
  including the last slash or backslash; the extension starts at the last period of the
  rest. \<^verbatim>\<open>_makepath\<close>: the first character of a non-empty drive and a colon; the
  directory, with a backslash appended when it is non-empty and does not end in a slash or
  backslash; the file name; the extension, with a period put in front when it has none.
  A \<^verbatim>\<open>NULL\<close> argument is \<open>None\<close>. The component buffers \<^verbatim>\<open>drive\<close>, \<^verbatim>\<open>dir\<close>,
  \<^verbatim>\<open>fname\<close> and \<^verbatim>\<open>ext\<close> have the sizes the runtime documents as sufficient; their
  bounds are not part of the model.
\<close>

definition is_sep :: "char \<Rightarrow> bool" where
  "is_sep c = (c = CHR ''/'' \<or> c = backslash)"

definition splitpath :: "string \<Rightarrow> string \<times> string \<times> string \<times> string" where
  "splitpath path =
     (let drive = (if 2 \<le> length path \<and> path ! 1 = CHR '':'' then take 2 path else []);
          rest = drop (length drive) path;
          dir = rev (dropWhile (\<lambda>c. \<not> is_sep c) (rev rest));
          file = drop (length dir) rest;
          ext = (if CHR ''.'' \<in> set file
                 then CHR ''.'' # rev (takeWhile (\<lambda>c. c \<noteq> CHR ''.'') (rev file)) else []);
          fname = take (length file - length ext) file
      in (drive, dir, fname, ext))"

definition makepath :: "string option \<Rightarrow> string option \<Rightarrow> string option \<Rightarrow> string option \<Rightarrow> string" where
  "makepath drive dir fname ext =
     (case drive of None \<Rightarrow> [] | Some [] \<Rightarrow> [] | Some (d # _) \<Rightarrow> [d, CHR '':''])
     @ (case dir of None \<Rightarrow> [] | Some [] \<Rightarrow> []
        | Some (c # cs) \<Rightarrow> if is_sep (last (c # cs)) then c # cs else (c # cs) @ [backslash])
     @ (case fname of None \<Rightarrow> [] | Some f \<Rightarrow> f)
     @ (case ext of None \<Rightarrow> [] | Some [] \<Rightarrow> []
        | Some (e # es) \<Rightarrow> if e = CHR ''.'' then e # es else CHR ''.'' # e # es)"

subsection \<open>Formatted output into fixed-size buffers\<close>

text \<open>
  \<^verbatim>\<open>sprintf(buf, fmt, ...)\<close> into \<^verbatim>\<open>char buf[n]\<close> writes the formatted text and
  a terminator with no length check. The model returns the text when text and terminator
  fit, and \<open>None\<close> when the write runs past the buffer.
\<close>

definition sprintf :: "nat \<Rightarrow> string \<Rightarrow> string option" where
  "sprintf n s = (if length s + 1 \<le> n then Some s else None)"

text \<open>The conversion \<^verbatim>\<open>%d\<close>: a signed decimal numeral.\<close>

definition digit :: "nat \<Rightarrow> char" where
  "digit n = ''0123456789'' ! n"

fun digits :: "nat \<Rightarrow> string" where
  "digits n = (if n < 10 then [digit n] else digits (n div 10) @ [digit (n mod 10)])"

declare digits.simps [simp del]

definition fmt_d :: "int \<Rightarrow> string" where
  "fmt_d i = (if i < 0 then CHR ''-'' # digits (nat (- i)) else digits (nat i))"

text \<open>The format strings of the program, applied to their arguments.\<close>

definition interpreter_name :: "bool \<Rightarrow> string" where
  "interpreter_name debug = (if debug then ''python.exe'' else ''pythonw.exe'')"

definition fmt_pythonPath :: "bool \<Rightarrow> string \<Rightarrow> string" where
  "fmt_pythonPath debug cwd = cwd @ ''base_env'' @ [backslash] @ interpreter_name debug"

definition fmt_bootScript :: "string \<Rightarrow> string" where
  "fmt_bootScript cwd = cwd @ ''boot.py''"

definition fmt_not_found :: "string \<Rightarrow> string" where
  "fmt_not_found pythonPath =
     ''Python environment not found at:'' @ [newline] @ pythonPath @ [newline, newline]
     @ ''Please ensure base_env is configured correctly.''"

definition fmt_pythonEnv :: "string \<Rightarrow> string" where
  "fmt_pythonEnv cwd = ''PYTHONPATH='' @ cwd @ ''site_packages;'' @ cwd"

definition fmt_cmdLine :: "string \<Rightarrow> string \<Rightarrow> string" where
  "fmt_cmdLine pythonPath bootScript =
     [dquote] @ pythonPath @ [dquote] @ '' '' @ [dquote] @ bootScript @ [dquote]"

definition fmt_launch_failed :: "32 word \<Rightarrow> string" where
  "fmt_launch_failed code =
     ''Failed to launch process.'' @ [newline] @ ''Error code: '' @ fmt_d (sint code)"

subsection \<open>The entry point\<close>

text \<open>
  The error report: \<^verbatim>\<open>printf("%s\n", msg); system("pause");\<close> in the debug build,
  \<^verbatim>\<open>MessageBox(NULL, msg, "Error", MB_OK | MB_ICONERROR);\<close> otherwise.
\<close>

definition report :: "bool \<Rightarrow> string \<Rightarrow> state \<Rightarrow> state" where
  "report debug msg st =
     (if debug then system ''pause'' (printf (msg @ [newline]) st)
      else MessageBox msg ''Error'' (MB_OK OR MB_ICONERROR) st)"

definition base_directory :: "string \<Rightarrow> string" where
  "base_directory exePath =
     (case splitpath exePath of
        (drive, dir, fname, ext) \<Rightarrow> makepath (Some drive) (Some dir) None None)"

definition after_spawn :: "bool \<Rightarrow> process_information \<Rightarrow> state \<Rightarrow> state \<times> outcome" where
  "after_spawn debug pi st =
     (let st1 = (if debug then WaitForSingleObject (hProcess pi) INFINITE st
                 else CloseHandle (hProcess pi) st)
      in (CloseHandle (hThread pi) st1, Exit 0))"

definition spawn :: "bool \<Rightarrow> os \<Rightarrow> string \<Rightarrow> state \<Rightarrow> state \<times> outcome" where
  "spawn debug w cmdLine st =
     (let creationFlags = (if debug then 0 else CREATE_NO_WINDOW) in
      case CreateProcess w cmdLine creationFlags st of
        (None, st1) \<Rightarrow>
          (case sprintf 512 (fmt_launch_failed (GetLastError w)) of
             None \<Rightarrow> (st1, Overrun)
           | Some msg \<Rightarrow> (report debug msg st1, Exit 1))
      | (Some pi, st1) \<Rightarrow> after_spawn debug pi st1)"

definition prepare_and_spawn ::
  "bool \<Rightarrow> os \<Rightarrow> string \<Rightarrow> string \<Rightarrow> string \<Rightarrow> state \<Rightarrow> state \<times> outcome" where
  "prepare_and_spawn debug w cwd pythonPath bootScript st =
     (case sprintf (MAX_PATH * 4) (fmt_pythonEnv cwd) of
        None \<Rightarrow> (st, Overrun)
      | Some pythonEnv \<Rightarrow>
          (case putenv w pythonEnv st of
             (r, st1) \<Rightarrow>
               (case sprintf (MAX_PATH * 4) (fmt_cmdLine pythonPath bootScript) of
                  None \<Rightarrow> (st1, Overrun)
                | Some cmdLine \<Rightarrow> spawn debug w cmdLine st1)))"

definition compose_and_check :: "bool \<Rightarrow> os \<Rightarrow> string \<Rightarrow> state \<Rightarrow> state \<times> outcome" where
  "compose_and_check debug w cwd st =
     (case sprintf MAX_PATH (fmt_pythonPath debug cwd) of
        None \<Rightarrow> (st, Overrun)
      | Some pythonPath \<Rightarrow>
          (case sprintf MAX_PATH (fmt_bootScript cwd) of
             None \<Rightarrow> (st, Overrun)
           | Some bootScript \<Rightarrow>
               (case GetFileAttributes w pythonPath st of
                  (attrs, st1) \<Rightarrow>
                    if attrs = INVALID_FILE_ATTRIBUTES
                    then (case sprintf 512 (fmt_not_found pythonPath) of
                            None \<Rightarrow> (st1, Overrun)
                          | Some msg \<Rightarrow> (report debug msg st1, Exit 1))
                    else prepare_and_spawn debug w cwd pythonPath bootScript st1)))"

text \<open>
  \<^verbatim>\<open>main\<close> / \<^verbatim>\<open>WinMain\<close>. The body is cut into the four definitions above at the
  comments of the source (\<^verbatim>\<open>// Construct paths\<close>, \<^verbatim>\<open>// Set PYTHONPATH environment
  variable\<close>, \<^verbatim>\<open>// Create process\<close>, \<^verbatim>\<open>// Close process and thread handles\<close>); the
  statements and their order are the source's. The zero-filling of \<^verbatim>\<open>si\<close> and \<^verbatim>\<open>pi\<close>
  has no effect outside the function and is left out.
\<close>

definition launcher :: "bool \<Rightarrow> entry_args \<Rightarrow> os \<Rightarrow> state \<Rightarrow> state \<times> outcome" where
  "launcher debug args w st =
     (case GetModuleFileName w MAX_PATH st of
        ((n, exePath), st1) \<Rightarrow>
          if n = 0 then (report debug ''Failed to get executable path.'' st1, Exit 1)
          else
            (let cwd = base_directory exePath in
               (case SetCurrentDirectory w cwd st1 of
                  (ok, st2) \<Rightarrow>
                    if \<not> ok then (report debug ''Failed to set current directory.'' st2, Exit 1)
                    else compose_and_check debug w cwd st2)))"

text \<open>
  The process as it starts: the inherited working directory and environment, no call made
  yet, no child, no handle.
\<close>

definition start :: "string \<Rightarrow> environment \<Rightarrow> state" where
  "start d e = \<lparr>cur_dir = d, environ = e, events = [], children = [], handles = []\<rparr>"

text \<open>
  The number the image-path query returns, the path it leaves in \<^verbatim>\<open>exePath\<close>, and the
  base directory.
\<close>

definition image_path_result :: "os \<Rightarrow> nat" where
  "image_path_result w =
     (case os_image_path w of
        None \<Rightarrow> 0
      | Some p \<Rightarrow> if length p < MAX_PATH then length p else MAX_PATH)"

definition exe_path :: "os \<Rightarrow> string" where
  "exe_path w = (case os_image_path w of None \<Rightarrow> [] | Some p \<Rightarrow> take (MAX_PATH - 1) p)"

definition base_dir :: "os \<Rightarrow> string" where
  "base_dir w = base_directory (exe_path w)"

subsection \<open>Reading the record of calls\<close>

fun is_failure :: "event \<Rightarrow> bool" where
  "is_failure (Ev_GetModuleFileName nSize r) = (r = 0)"
| "is_failure (Ev_SetCurrentDirectory path ok) = (\<not> ok)"
| "is_failure (Ev_GetFileAttributes path attrs) = (attrs = INVALID_FILE_ATTRIBUTES)"
| "is_failure (Ev_CreateProcess cmdLine flags ok) = (\<not> ok)"
| "is_failure _ = False"

fun is_spawned :: "event \<Rightarrow> bool" where
  "is_spawned (Ev_CreateProcess cmdLine flags ok) = ok"
| "is_spawned _ = False"

fun is_message :: "event \<Rightarrow> bool" where
  "is_message (Ev_MessageBox text caption type) = True"
| "is_message (Ev_printf s) = True"
| "is_message _ = False"

definition messages :: "state \<Rightarrow> event list" where
  "messages st = filter is_message (events st)"

text \<open>The one message of an error report, as it appears in the record of calls.\<close>

definition message_of :: "bool \<Rightarrow> string \<Rightarrow> event" where
  "message_of debug msg =
     (if debug then Ev_printf (msg @ [newline])
      else Ev_MessageBox msg ''Error'' (MB_OK OR MB_ICONERROR))"

text \<open>
  Names for what the entry point hands to the system: the creation flags, the command line,
  the environment after \<^verbatim>\<open>_putenv\<close> returned \<open>r\<close>, and the calls of an error report.
\<close>

definition flags_of :: "bool \<Rightarrow> 32 word" where
  "flags_of debug = (if debug then 0 else CREATE_NO_WINDOW)"

definition env_put :: "int \<Rightarrow> string \<Rightarrow> environment \<Rightarrow> environment" where
  "env_put r cwd e =
     (if r \<noteq> 0 then e else e(''PYTHONPATH'' \<mapsto> cwd @ ''site_packages;'' @ cwd))"

definition env_after :: "os \<Rightarrow> environment \<Rightarrow> environment" where
  "env_after w e = env_put (os_putenv_result w (fmt_pythonEnv (base_dir w))) (base_dir w) e"

definition cmd_line :: "bool \<Rightarrow> os \<Rightarrow> string" where
  "cmd_line debug w =
     fmt_cmdLine (fmt_pythonPath debug (base_dir w)) (fmt_bootScript (base_dir w))"

definition report_events :: "bool \<Rightarrow> string \<Rightarrow> event list" where
  "report_events debug msg =
     (if debug then [Ev_printf (msg @ [newline]), Ev_system ''pause'']
      else [Ev_MessageBox msg ''Error'' (MB_OK OR MB_ICONERROR)])"

text \<open>The calls that follow a successful process creation.\<close>

definition after_spawn_events :: "bool \<Rightarrow> process_information \<Rightarrow> event list" where
  "after_spawn_events debug pi =
     [if debug then Ev_WaitForSingleObject (hProcess pi) INFINITE
      else Ev_CloseHandle (hProcess pi),
      Ev_CloseHandle (hThread pi)]"

fun is_spawn_failure :: "event \<Rightarrow> bool" where
  "is_spawn_failure (Ev_CreateProcess cmdLine flags ok) = (\<not> ok)"
| "is_spawn_failure _ = False"

fun is_putenv :: "event \<Rightarrow> bool" where
  "is_putenv (Ev_putenv s r) = True"
| "is_putenv _ = False"

fun is_create_process :: "event \<Rightarrow> bool" where
  "is_create_process (Ev_CreateProcess cmdLine flags ok) = True"
| "is_create_process _ = False"

text \<open>
  Every path or string a call is given is the one composed from the base directory \<open>base\<close>.
\<close>

fun composed_from :: "bool \<Rightarrow> string \<Rightarrow> event \<Rightarrow> bool" where
  "composed_from debug base (Ev_SetCurrentDirectory path ok) = (path = base)"
| "composed_from debug base (Ev_GetFileAttributes path attrs) =
     (path = fmt_pythonPath debug base)"
| "composed_from debug base (Ev_putenv s r) = (s = fmt_pythonEnv base)"
| "composed_from debug base (Ev_CreateProcess cmdLine flags ok) =
     (cmdLine = fmt_cmdLine (fmt_pythonPath debug base) (fmt_bootScript base))"
| "composed_from debug base ev = True"

text \<open>The calls made after the first call that satisfies \<open>P\<close>.\<close>

definition calls_after :: "(event \<Rightarrow> bool) \<Rightarrow> event list \<Rightarrow> event list" where
  "calls_after P evs = drop 1 (dropWhile (\<lambda>ev. \<not> P ev) evs)"

subsection \<open>Paths and the command-line pattern of the specification\<close>

text \<open>
  A fully qualified Windows path starts with a drive designator, a colon and a separator, or
  with two separators (a UNC or device path). This is what the specification calls an
  absolute path.
\<close>

fun fully_qualified :: "string \<Rightarrow> bool" where
  "fully_qualified (a # b # c # p) = ((b = CHR '':'' \<and> is_sep c) \<or> (is_sep a \<and> is_sep b))"
| "fully_qualified [a, b] = (is_sep a \<and> is_sep b)"
| "fully_qualified p = False"

text \<open>
  The regular expressions the pattern of the specification needs, with their languages:
  a literal string, any character but one, sequence, option, one or more repetitions.
\<close>

datatype rexp =
    Lit string
  | NotChr char
  | Seq rexp rexp
  | Opt rexp
  | Plus rexp

inductive_set plus_lang :: "string set \<Rightarrow> string set" for A :: "string set" where
  one: "u \<in> A \<Longrightarrow> u \<in> plus_lang A"
| more: "u \<in> A \<Longrightarrow> v \<in> plus_lang A \<Longrightarrow> u @ v \<in> plus_lang A"

fun lang :: "rexp \<Rightarrow> string set" where
  "lang (Lit s) = {s}"
| "lang (NotChr c) = {[d] | d. d \<noteq> c}"
| "lang (Seq r1 r2) = {u @ v | u v. u \<in> lang r1 \<and> v \<in> lang r2}"
| "lang (Opt r) = insert [] (lang r)"
| "lang (Plus r) = plus_lang (lang r)"

text \<open>
  The pattern \<^verbatim>\<open>^"[^"]+\\base_env\\python(w)?\.exe" "[^"]+\\boot\.py"$\<close>.
\<close>

definition cmd_pattern :: rexp where
  "cmd_pattern =
     Seq (Lit [dquote])
    (Seq (Plus (NotChr dquote))
    (Seq (Lit ([backslash] @ ''base_env'' @ [backslash] @ ''python''))
    (Seq (Opt (Lit ''w''))
    (Seq (Lit (''.exe'' @ [dquote] @ '' '' @ [dquote]))
    (Seq (Plus (NotChr dquote))
         (Lit ([backslash] @ ''boot.py'' @ [dquote])))))))"

subsection \<open>Example runs\<close>

text \<open>
  The launcher at \<^verbatim>\<open>C:\app\run.exe\<close> on a system where every call succeeds, and
  variations of it; a launcher in a directory whose path is 254 characters long; a launcher
  whose image path is written with slashes.
\<close>

definition app_dir :: string where
  "app_dir = ''C:'' @ [backslash] @ ''app'' @ [backslash]"

definition os_ok :: os where
  "os_ok =
     \<lparr>os_image_path = Some (app_dir @ ''run.exe''),
      os_chdir_ok = (\<lambda>path. True),
      os_file_attributes = (\<lambda>path. 0x20),
      os_putenv_result = (\<lambda>s. 0),
      os_create_process = (\<lambda>cmdLine flags env dir. Some \<lparr>hProcess = 7, hThread = 8\<rparr>),
      os_last_error = 0,
      os_child_exit_status = 0\<rparr>"

definition os_no_image_path :: os where
  "os_no_image_path = os_ok\<lparr>os_image_path := None\<rparr>"

definition os_interpreter_missing :: os where
  "os_interpreter_missing = os_ok\<lparr>os_file_attributes := (\<lambda>path. INVALID_FILE_ATTRIBUTES)\<rparr>"

definition os_spawn_fails :: os where
  "os_spawn_fails =
     os_ok\<lparr>os_create_process := (\<lambda>cmdLine flags env dir. None), os_last_error := 2\<rparr>"

definition os_putenv_fails :: os where
  "os_putenv_fails = os_ok\<lparr>os_putenv_result := (\<lambda>s. - 1)\<rparr>"

definition long_dir :: string where
  "long_dir = ''C:'' @ [backslash] @ replicate 250 (CHR ''a'') @ [backslash]"

definition os_long_path :: os where
  "os_long_path = os_ok\<lparr>os_image_path := Some (long_dir @ ''r.exe'')\<rparr>"

definition slash_dir :: string where
  "slash_dir = ''C:/app/''"

definition os_slash_path :: os where
  "os_slash_path = os_ok\<lparr>os_image_path := Some (slash_dir @ ''run.exe'')\<rparr>"

definition env_none :: environment where
  "env_none = Map.empty"

definition env_V :: environment where
  "env_V = Map.empty(''PYTHONPATH'' \<mapsto> ''V'', ''PATH'' \<mapsto> ''W'')"

definition winmain_args :: entry_args where
  "winmain_args = WinMainArgs 1 0 [] 1"

definition main_args :: entry_args where
  "main_args = MainArgs 1 [app_dir @ ''run.exe'']"

definition run_release :: "os \<Rightarrow> environment \<Rightarrow> state \<times> outcome" where
  "run_release w e = launcher False winmain_args w (start ''D:'' e)"

definition run_debug :: "os \<Rightarrow> environment \<Rightarrow> state \<times> outcome" where
  "run_debug w e = launcher True main_args w (start ''D:'' e)"

section \<open>Properties\<close>

subsection \<open>Lengths of the formatted strings\<close>

lemma length_fmt_pythonPath:
  "length (fmt_pythonPath debug cwd) = length cwd + (if debug then 19 else 20)"
  by (simp add: fmt_pythonPath_def interpreter_name_def)

lemma length_fmt_bootScript: "length (fmt_bootScript cwd) = length cwd + 7"
  by (simp add: fmt_bootScript_def)

lemma length_fmt_not_found: "length (fmt_not_found p) = length p + 82"
  by (simp add: fmt_not_found_def)

lemma length_fmt_pythonEnv: "length (fmt_pythonEnv cwd) = 2 * length cwd + 25"
  by (simp add: fmt_pythonEnv_def)

lemma length_fmt_cmdLine: "length (fmt_cmdLine p b) = length p + length b + 5"
  by (simp add: fmt_cmdLine_def)

lemma length_digits: "0 < k \<Longrightarrow> n < 10 ^ k \<Longrightarrow> length (digits n) \<le> k"
proof (induction n arbitrary: k rule: digits.induct)
  case (1 n)
  show ?case
  proof (cases "n < 10")
    case True
    with "1.prems" show ?thesis by (simp add: digits.simps)
  next
    case False
    with "1.prems" have k: "1 < k" by (cases "k = 1") auto
    then obtain j where j: "k = Suc j" "0 < j" by (cases k) auto
    from "1.prems" j have "n div 10 < 10 ^ j" by (simp add: less_mult_imp_div_less mult.commute)
    with "1.IH" [OF False, of j] j have "length (digits (n div 10)) \<le> j" by simp
    with False j show ?thesis by (subst digits.simps) simp
  qed
qed

lemma length_fmt_d: "length (fmt_d (sint (c :: 32 word))) \<le> 11"
proof -
  have lo: "- (2 ^ 31) \<le> sint c" using sint_ge [of c] by simp
  have hi: "sint c < 2 ^ 31" using sint_lt [of c] by simp
  show ?thesis
  proof (cases "sint c < 0")
    case True
    with lo have "nat (- sint c) < 10 ^ 10" by simp
    then have "length (digits (nat (- sint c))) \<le> 10" by (rule length_digits [rotated]) simp
    with True show ?thesis by (simp add: fmt_d_def)
  next
    case False
    with hi have "nat (sint c) < 10 ^ 10" by simp
    then have "length (digits (nat (sint c))) \<le> 10" by (rule length_digits [rotated]) simp
    with False show ?thesis by (simp add: fmt_d_def)
  qed
qed

lemma length_fmt_launch_failed: "length (fmt_launch_failed c) \<le> 49"
  using length_fmt_d [of c] by (simp add: fmt_launch_failed_def)

lemma sprintf_fits: "length s + 1 \<le> n \<Longrightarrow> sprintf n s = Some s"
  by (simp add: sprintf_def)

lemma sprintf_launch_failed: "sprintf 512 (fmt_launch_failed c) = Some (fmt_launch_failed c)"
  using length_fmt_launch_failed [of c] by (simp add: sprintf_def)

lemma sint_small: "(c :: 32 word) < 2 ^ 31 \<Longrightarrow> sint c = uint c"
proof -
  assume "c < 2 ^ 31"
  then have "uint c < 2 ^ 31" by (simp add: word_less_def)
  moreover have "- (2 ^ 31) \<le> uint c"
    by (rule order_trans [of _ 0]) simp_all
  ultimately have "signed_take_bit 31 (uint c) = uint c"
    by (intro signed_take_bit_int_eq_self)
  then show ?thesis by (simp add: sint_uint)
qed

lemma fmt_d_small: "(c :: 32 word) < 2 ^ 31 \<Longrightarrow> fmt_d (sint c) = digits (unat c)"
  by (simp add: sint_small fmt_d_def)

subsection \<open>The calls, one by one\<close>

text \<open>
  The bounds above leave one place where a write can pass its buffer: the first
  \<^verbatim>\<open>sprintf\<close>, into \<^verbatim>\<open>pythonPath\<close>. When that one fits, all the later ones do.
\<close>

lemma spawn_eq:
  "spawn debug w cmdLine st =
     (case CreateProcess w cmdLine (flags_of debug) st of
        (None, st1) \<Rightarrow> (report debug (fmt_launch_failed (GetLastError w)) st1, Exit 1)
      | (Some pi, st1) \<Rightarrow> after_spawn debug pi st1)"
  by (simp add: spawn_def flags_of_def sprintf_launch_failed split: prod.splits option.splits)

lemma compose_and_check_eq:
  "compose_and_check debug w cwd st =
     (if MAX_PATH < length (fmt_pythonPath debug cwd) + 1 then (st, Overrun)
      else
        (case GetFileAttributes w (fmt_pythonPath debug cwd) st of
           (attrs, st1) \<Rightarrow>
             if attrs = INVALID_FILE_ATTRIBUTES
             then (report debug (fmt_not_found (fmt_pythonPath debug cwd)) st1, Exit 1)
             else
               (case putenv w (fmt_pythonEnv cwd) st1 of
                  (r, st2) \<Rightarrow>
                    spawn debug w
                      (fmt_cmdLine (fmt_pythonPath debug cwd) (fmt_bootScript cwd)) st2)))"
  by (simp add: compose_and_check_def prepare_and_spawn_def sprintf_def length_fmt_pythonPath
      length_fmt_bootScript length_fmt_not_found length_fmt_pythonEnv length_fmt_cmdLine
      MAX_PATH_def split: prod.splits)

lemma report_eq: "report debug msg st = st\<lparr>events := events st @ report_events debug msg\<rparr>"
  by (simp add: report_def report_events_def system_def printf_def MessageBox_def)

lemma putenv_name_fmt: "putenv_name (fmt_pythonEnv cwd) = ''PYTHONPATH''"
  by (simp add: putenv_name_def fmt_pythonEnv_def)

lemma putenv_value_fmt: "putenv_value (fmt_pythonEnv cwd) = cwd @ ''site_packages;'' @ cwd"
  by (simp add: putenv_value_def fmt_pythonEnv_def)

lemma putenv_fmt:
  "putenv w (fmt_pythonEnv cwd) st =
     (os_putenv_result w (fmt_pythonEnv cwd),
      st\<lparr>environ := env_put (os_putenv_result w (fmt_pythonEnv cwd)) cwd (environ st),
         events := events st @ [Ev_putenv (fmt_pythonEnv cwd) (os_putenv_result w (fmt_pythonEnv cwd))]\<rparr>)"
  by (simp add: putenv_def Let_def putenv_name_fmt putenv_value_fmt env_put_def)

lemma CreateProcess_None:
  "os_create_process w c f (environ st) (cur_dir st) = None \<Longrightarrow>
   CreateProcess w c f st = (None, st\<lparr>events := events st @ [Ev_CreateProcess c f False]\<rparr>)"
  by (simp add: CreateProcess_def)

lemma CreateProcess_Some:
  "os_create_process w c f (environ st) (cur_dir st) = Some pi \<Longrightarrow>
   CreateProcess w c f st =
     (Some pi,
      st\<lparr>events := events st @ [Ev_CreateProcess c f True],
         children := children st @
           [\<lparr>command_line = c, creation_flags = f,
             child_environ = environ st, child_dir = cur_dir st\<rparr>],
         handles := hProcess pi # hThread pi # handles st\<rparr>)"
  by (simp add: CreateProcess_def)

lemma GetModuleFileName_eq:
  "GetModuleFileName w MAX_PATH st =
     ((image_path_result w, exe_path w),
      st\<lparr>events := events st @ [Ev_GetModuleFileName MAX_PATH (image_path_result w)]\<rparr>)"
  by (simp add: GetModuleFileName_def exe_path_def image_path_result_def Let_def
      split: option.splits)

lemma image_path_result_eq_0 [simp]: "image_path_result w = 0 \<longleftrightarrow> exe_path w = []"
  by (auto simp: image_path_result_def exe_path_def MAX_PATH_def split: option.splits)

lemma image_path_result_pos [simp]: "0 < image_path_result w \<longleftrightarrow> exe_path w \<noteq> []"
  using image_path_result_eq_0 [of w] by (cases "image_path_result w") auto

subsection \<open>The six ways through the entry point\<close>

text \<open>
  A run from the start of the process takes one of six ways, decided by the answers of the
  system; each lemma gives the final state and the outcome of one of them.
\<close>

lemma launcher_image_fails:
  assumes "exe_path w = []"
  shows "launcher debug args w (start d e) =
     (\<lparr>cur_dir = d, environ = e,
       events = Ev_GetModuleFileName MAX_PATH 0
                # report_events debug ''Failed to get executable path.'',
       children = [], handles = []\<rparr>, Exit 1)"
  using assms
  by (simp add: launcher_def GetModuleFileName_eq report_eq start_def)

lemma launcher_chdir_fails:
  assumes "exe_path w \<noteq> []" "\<not> os_chdir_ok w (base_dir w)"
  shows "launcher debug args w (start d e) =
     (\<lparr>cur_dir = d, environ = e,
       events = Ev_GetModuleFileName MAX_PATH (image_path_result w)
                # Ev_SetCurrentDirectory (base_dir w) False
                # report_events debug ''Failed to set current directory.'',
       children = [], handles = []\<rparr>, Exit 1)"
  using assms
  by (simp add: launcher_def GetModuleFileName_eq
      SetCurrentDirectory_def report_eq start_def
      base_dir_def Let_def)

lemma launcher_pinned:
  assumes "exe_path w \<noteq> []" "os_chdir_ok w (base_dir w)"
  shows "launcher debug args w (start d e) =
     compose_and_check debug w (base_dir w)
       \<lparr>cur_dir = base_dir w, environ = e,
        events = [Ev_GetModuleFileName MAX_PATH (image_path_result w),
                  Ev_SetCurrentDirectory (base_dir w) True],
        children = [], handles = []\<rparr>"
  using assms
  by (simp add: launcher_def GetModuleFileName_eq
      SetCurrentDirectory_def start_def
      base_dir_def Let_def)

lemma launcher_overrun:
  assumes "exe_path w \<noteq> []" "os_chdir_ok w (base_dir w)"
    and "MAX_PATH < length (fmt_pythonPath debug (base_dir w)) + 1"
  shows "launcher debug args w (start d e) =
     (\<lparr>cur_dir = base_dir w, environ = e,
       events = [Ev_GetModuleFileName MAX_PATH (image_path_result w),
                 Ev_SetCurrentDirectory (base_dir w) True],
       children = [], handles = []\<rparr>, Overrun)"
  using assms by (simp add: launcher_pinned compose_and_check_eq)

lemma launcher_interpreter_missing:
  assumes "exe_path w \<noteq> []" "os_chdir_ok w (base_dir w)"
    and "length (fmt_pythonPath debug (base_dir w)) + 1 \<le> MAX_PATH"
    and "os_file_attributes w (fmt_pythonPath debug (base_dir w)) = INVALID_FILE_ATTRIBUTES"
  shows "launcher debug args w (start d e) =
     (\<lparr>cur_dir = base_dir w, environ = e,
       events = Ev_GetModuleFileName MAX_PATH (image_path_result w)
                # Ev_SetCurrentDirectory (base_dir w) True
                # Ev_GetFileAttributes (fmt_pythonPath debug (base_dir w)) INVALID_FILE_ATTRIBUTES
                # report_events debug (fmt_not_found (fmt_pythonPath debug (base_dir w))),
       children = [], handles = []\<rparr>, Exit 1)"
  using assms
  by (simp add: launcher_pinned compose_and_check_eq GetFileAttributes_def report_eq)

lemma launcher_prepared:
  assumes "exe_path w \<noteq> []" "os_chdir_ok w (base_dir w)"
    and "length (fmt_pythonPath debug (base_dir w)) + 1 \<le> MAX_PATH"
    and "os_file_attributes w (fmt_pythonPath debug (base_dir w)) \<noteq> INVALID_FILE_ATTRIBUTES"
  shows "launcher debug args w (start d e) =
     spawn debug w (cmd_line debug w)
       \<lparr>cur_dir = base_dir w, environ = env_after w e,
        events = [Ev_GetModuleFileName MAX_PATH (image_path_result w),
                  Ev_SetCurrentDirectory (base_dir w) True,
                  Ev_GetFileAttributes (fmt_pythonPath debug (base_dir w))
                    (os_file_attributes w (fmt_pythonPath debug (base_dir w))),
                  Ev_putenv (fmt_pythonEnv (base_dir w))
                    (os_putenv_result w (fmt_pythonEnv (base_dir w)))],
        children = [], handles = []\<rparr>"
  using assms
  by (simp add: launcher_pinned compose_and_check_eq GetFileAttributes_def putenv_fmt
      env_after_def cmd_line_def)

lemma launcher_spawn_fails:
  assumes "exe_path w \<noteq> []" "os_chdir_ok w (base_dir w)"
    and "length (fmt_pythonPath debug (base_dir w)) + 1 \<le> MAX_PATH"
    and "os_file_attributes w (fmt_pythonPath debug (base_dir w)) \<noteq> INVALID_FILE_ATTRIBUTES"
    and "os_create_process w (cmd_line debug w) (flags_of debug) (env_after w e) (base_dir w) = None"
  shows "launcher debug args w (start d e) =
     (\<lparr>cur_dir = base_dir w, environ = env_after w e,
       events = Ev_GetModuleFileName MAX_PATH (image_path_result w)
                # Ev_SetCurrentDirectory (base_dir w) True
                # Ev_GetFileAttributes (fmt_pythonPath debug (base_dir w))
                    (os_file_attributes w (fmt_pythonPath debug (base_dir w)))
                # Ev_putenv (fmt_pythonEnv (base_dir w))
                    (os_putenv_result w (fmt_pythonEnv (base_dir w)))
                # Ev_CreateProcess (cmd_line debug w) (flags_of debug) False
                # report_events debug (fmt_launch_failed (os_last_error w)),
       children = [], handles = []\<rparr>, Exit 1)"
  by (simp add: launcher_prepared [OF assms(1-4)] spawn_eq CreateProcess_None assms(5)
      GetLastError_def report_eq)

lemma launcher_spawned:
  assumes "exe_path w \<noteq> []" "os_chdir_ok w (base_dir w)"
    and "length (fmt_pythonPath debug (base_dir w)) + 1 \<le> MAX_PATH"
    and "os_file_attributes w (fmt_pythonPath debug (base_dir w)) \<noteq> INVALID_FILE_ATTRIBUTES"
    and "os_create_process w (cmd_line debug w) (flags_of debug) (env_after w e) (base_dir w) = Some pi"
  shows "launcher debug args w (start d e) =
     (\<lparr>cur_dir = base_dir w, environ = env_after w e,
       events = [Ev_GetModuleFileName MAX_PATH (image_path_result w),
                 Ev_SetCurrentDirectory (base_dir w) True,
                 Ev_GetFileAttributes (fmt_pythonPath debug (base_dir w))
                    (os_file_attributes w (fmt_pythonPath debug (base_dir w))),
                 Ev_putenv (fmt_pythonEnv (base_dir w))
                    (os_putenv_result w (fmt_pythonEnv (base_dir w))),
                 Ev_CreateProcess (cmd_line debug w) (flags_of debug) True]
                @ after_spawn_events debug pi,
       children = [\<lparr>command_line = cmd_line debug w, creation_flags = flags_of debug,
                    child_environ = env_after w e, child_dir = base_dir w\<rparr>],
       handles = remove1 (hThread pi)
                   (if debug then [hProcess pi, hThread pi] else [hThread pi])\<rparr>, Exit 0)"
  by (simp add: launcher_prepared [OF assms(1-4)] spawn_eq CreateProcess_Some assms(5)
      after_spawn_def WaitForSingleObject_def CloseHandle_def after_spawn_events_def)

lemma launcher_cases [case_names image_fails chdir_fails overrun missing spawn_fails spawned]:
  obtains "exe_path w = []"
  | "exe_path w \<noteq> []" "\<not> os_chdir_ok w (base_dir w)"
  | "exe_path w \<noteq> []" "os_chdir_ok w (base_dir w)"
      "MAX_PATH < length (fmt_pythonPath debug (base_dir w)) + 1"
  | "exe_path w \<noteq> []" "os_chdir_ok w (base_dir w)"
      "length (fmt_pythonPath debug (base_dir w)) + 1 \<le> MAX_PATH"
      "os_file_attributes w (fmt_pythonPath debug (base_dir w)) = INVALID_FILE_ATTRIBUTES"
  | "exe_path w \<noteq> []" "os_chdir_ok w (base_dir w)"
      "length (fmt_pythonPath debug (base_dir w)) + 1 \<le> MAX_PATH"
      "os_file_attributes w (fmt_pythonPath debug (base_dir w)) \<noteq> INVALID_FILE_ATTRIBUTES"
      "os_create_process w (cmd_line debug w) (flags_of debug) (env_after w e) (base_dir w) = None"
  | pi where "exe_path w \<noteq> []" "os_chdir_ok w (base_dir w)"
      "length (fmt_pythonPath debug (base_dir w)) + 1 \<le> MAX_PATH"
      "os_file_attributes w (fmt_pythonPath debug (base_dir w)) \<noteq> INVALID_FILE_ATTRIBUTES"
      "os_create_process w (cmd_line debug w) (flags_of debug) (env_after w e) (base_dir w) = Some pi"
  by (cases "os_create_process w (cmd_line debug w) (flags_of debug) (env_after w e) (base_dir w)")
     (fastforce simp: not_less)+

lemma launcher_result [consumes 1, case_names image_fails chdir_fails overrun missing spawn_fails spawned]:
  assumes "launcher debug args w (start d e) = (st', out)"
  obtains
    "exe_path w = []"
    "st' = \<lparr>cur_dir = d, environ = e,
            events = Ev_GetModuleFileName MAX_PATH 0
                     # report_events debug ''Failed to get executable path.'',
            children = [], handles = []\<rparr>"
    "out = Exit 1"
  | "exe_path w \<noteq> []" "\<not> os_chdir_ok w (base_dir w)"
    "st' = \<lparr>cur_dir = d, environ = e,
            events = Ev_GetModuleFileName MAX_PATH (image_path_result w)
                     # Ev_SetCurrentDirectory (base_dir w) False
                     # report_events debug ''Failed to set current directory.'',
            children = [], handles = []\<rparr>"
    "out = Exit 1"
  | "exe_path w \<noteq> []" "os_chdir_ok w (base_dir w)"
    "MAX_PATH < length (fmt_pythonPath debug (base_dir w)) + 1"
    "st' = \<lparr>cur_dir = base_dir w, environ = e,
            events = [Ev_GetModuleFileName MAX_PATH (image_path_result w),
                      Ev_SetCurrentDirectory (base_dir w) True],
            children = [], handles = []\<rparr>"
    "out = Overrun"
  | "exe_path w \<noteq> []" "os_chdir_ok w (base_dir w)"
    "length (fmt_pythonPath debug (base_dir w)) + 1 \<le> MAX_PATH"
    "os_file_attributes w (fmt_pythonPath debug (base_dir w)) = INVALID_FILE_ATTRIBUTES"
    "st' = \<lparr>cur_dir = base_dir w, environ = e,
            events = Ev_GetModuleFileName MAX_PATH (image_path_result w)
                     # Ev_SetCurrentDirectory (base_dir w) True
                     # Ev_GetFileAttributes (fmt_pythonPath debug (base_dir w)) INVALID_FILE_ATTRIBUTES
                     # report_events debug (fmt_not_found (fmt_pythonPath debug (base_dir w))),
            children = [], handles = []\<rparr>"
    "out = Exit 1"
  | "exe_path w \<noteq> []" "os_chdir_ok w (base_dir w)"
    "length (fmt_pythonPath debug (base_dir w)) + 1 \<le> MAX_PATH"
    "os_file_attributes w (fmt_pythonPath debug (base_dir w)) \<noteq> INVALID_FILE_ATTRIBUTES"
    "os_create_process w (cmd_line debug w) (flags_of debug) (env_after w e) (base_dir w) = None"
    "st' = \<lparr>cur_dir = base_dir w, environ = env_after w e,
            events = Ev_GetModuleFileName MAX_PATH (image_path_result w)
                     # Ev_SetCurrentDirectory (base_dir w) True
                     # Ev_GetFileAttributes (fmt_pythonPath debug (base_dir w))
                         (os_file_attributes w (fmt_pythonPath debug (base_dir w)))
                     # Ev_putenv (fmt_pythonEnv (base_dir w))
                         (os_putenv_result w (fmt_pythonEnv (base_dir w)))
                     # Ev_CreateProcess (cmd_line debug w) (flags_of debug) False
                     # report_events debug (fmt_launch_failed (os_last_error w)),
            children = [], handles = []\<rparr>"
    "out = Exit 1"
  | pi where "exe_path w \<noteq> []" "os_chdir_ok w (base_dir w)"
    "length (fmt_pythonPath debug (base_dir w)) + 1 \<le> MAX_PATH"
    "os_file_attributes w (fmt_pythonPath debug (base_dir w)) \<noteq> INVALID_FILE_ATTRIBUTES"
    "os_create_process w (cmd_line debug w) (flags_of debug) (env_after w e) (base_dir w) = Some pi"
    "st' = \<lparr>cur_dir = base_dir w, environ = env_after w e,
            events = [Ev_GetModuleFileName MAX_PATH (image_path_result w),
                      Ev_SetCurrentDirectory (base_dir w) True,
                      Ev_GetFileAttributes (fmt_pythonPath debug (base_dir w))
                         (os_file_attributes w (fmt_pythonPath debug (base_dir w))),
                      Ev_putenv (fmt_pythonEnv (base_dir w))
                         (os_putenv_result w (fmt_pythonEnv (base_dir w))),
                      Ev_CreateProcess (cmd_line debug w) (flags_of debug) True]
                     @ after_spawn_events debug pi,
            children = [\<lparr>command_line = cmd_line debug w, creation_flags = flags_of debug,
                         child_environ = env_after w e, child_dir = base_dir w\<rparr>],
            handles = remove1 (hThread pi)
                        (if debug then [hProcess pi, hThread pi] else [hThread pi])\<rparr>"
    "out = Exit 0"
proof (cases rule: launcher_cases [where w = w and debug = debug and e = e])
  case image_fails
  with assms that(1) show ?thesis by (simp add: launcher_image_fails)
next
  case chdir_fails
  with assms that(2) show ?thesis by (simp add: launcher_chdir_fails)
next
  case overrun
  with assms that(3) show ?thesis by (simp add: launcher_overrun)
next
  case missing
  with assms that(4) show ?thesis by (simp add: launcher_interpreter_missing)
next
  case spawn_fails
  with assms that(5) show ?thesis by (simp add: launcher_spawn_fails)
next
  case (spawned pi)
  with assms that(6) [of pi] show ?thesis by (simp add: launcher_spawned [where pi = pi])
qed

lemmas ev_defs = report_events_def after_spawn_events_def message_of_def messages_def
  calls_after_def

lemma report_events_no_failure [simp]: "list_ex is_failure (report_events debug msg) = False"
  by (simp add: report_events_def)

lemma report_events_no_spawn [simp]: "list_ex is_spawned (report_events debug msg) = False"
  by (simp add: report_events_def)

lemma report_events_message [simp]:
  "filter is_message (report_events debug msg) = [message_of debug msg]"
  by (simp add: report_events_def message_of_def)

lemma after_spawn_events_no_failure [simp]:
  "list_ex is_failure (after_spawn_events debug pi) = False"
  by (simp add: after_spawn_events_def)

lemma after_spawn_events_no_spawn [simp]:
  "list_ex is_spawned (after_spawn_events debug pi) = False"
  by (simp add: after_spawn_events_def)

lemma after_spawn_events_no_message [simp]:
  "filter is_message (after_spawn_events debug pi) = []"
  by (simp add: after_spawn_events_def)

lemma events_composed_from_base:
  assumes "launcher debug args w (start d e) = (st', out)"
  shows "list_all (composed_from debug (base_dir w)) (events st')"
  using assms
  by (cases rule: launcher_result)
     (auto simp: report_events_def after_spawn_events_def cmd_line_def)

lemma create_process_called_iff:
  assumes "launcher debug args w (start d e) = (st', out)"
  shows "list_ex is_create_process (events st') \<longleftrightarrow>
           exe_path w \<noteq> [] \<and> os_chdir_ok w (base_dir w)
         \<and> length (fmt_pythonPath debug (base_dir w)) + 1 \<le> MAX_PATH
         \<and> os_file_attributes w (fmt_pythonPath debug (base_dir w)) \<noteq> INVALID_FILE_ATTRIBUTES"
  using assms
  by (cases rule: launcher_result) (auto simp: ev_defs split: if_splits)

subsection \<open>What a run does not read\<close>

lemma image_path_result_update [simp]:
  "image_path_result (w\<lparr>os_child_exit_status := s\<rparr>) = image_path_result w"
  "image_path_result (w\<lparr>os_file_attributes := fa\<rparr>) = image_path_result w"
  "image_path_result (w\<lparr>os_putenv_result := pr\<rparr>) = image_path_result w"
  "image_path_result (w\<lparr>os_create_process := cp\<rparr>) = image_path_result w"
  "image_path_result (w\<lparr>os_last_error := le\<rparr>) = image_path_result w"
  by (simp_all add: image_path_result_def)

lemma exe_path_child_status [simp]: "exe_path (w\<lparr>os_child_exit_status := s\<rparr>) = exe_path w"
  by (simp add: exe_path_def)

lemma base_dir_child_status [simp]: "base_dir (w\<lparr>os_child_exit_status := s\<rparr>) = base_dir w"
  by (simp add: base_dir_def)

lemma cmd_line_child_status [simp]: "cmd_line debug (w\<lparr>os_child_exit_status := s\<rparr>) = cmd_line debug w"
  by (simp add: cmd_line_def)

lemma env_after_child_status [simp]: "env_after (w\<lparr>os_child_exit_status := s\<rparr>) e = env_after w e"
  by (simp add: env_after_def)

lemma exe_path_update [simp]:
  "exe_path (w\<lparr>os_file_attributes := fa\<rparr>) = exe_path w"
  "exe_path (w\<lparr>os_putenv_result := pr\<rparr>) = exe_path w"
  "exe_path (w\<lparr>os_create_process := cp\<rparr>) = exe_path w"
  "exe_path (w\<lparr>os_last_error := le\<rparr>) = exe_path w"
  by (simp_all add: exe_path_def)

lemma base_dir_update [simp]:
  "base_dir (w\<lparr>os_file_attributes := fa\<rparr>) = base_dir w"
  "base_dir (w\<lparr>os_putenv_result := pr\<rparr>) = base_dir w"
  "base_dir (w\<lparr>os_create_process := cp\<rparr>) = base_dir w"
  "base_dir (w\<lparr>os_last_error := le\<rparr>) = base_dir w"
  by (simp_all add: base_dir_def)

lemma cmd_line_update [simp]:
  "cmd_line debug (w\<lparr>os_file_attributes := fa\<rparr>) = cmd_line debug w"
  "cmd_line debug (w\<lparr>os_putenv_result := pr\<rparr>) = cmd_line debug w"
  "cmd_line debug (w\<lparr>os_create_process := cp\<rparr>) = cmd_line debug w"
  "cmd_line debug (w\<lparr>os_last_error := le\<rparr>) = cmd_line debug w"
  by (simp_all add: cmd_line_def)

lemma env_after_update [simp]:
  "env_after (w\<lparr>os_file_attributes := fa\<rparr>) e = env_after w e"
  "env_after (w\<lparr>os_create_process := cp\<rparr>) e = env_after w e"
  "env_after (w\<lparr>os_last_error := le\<rparr>) e = env_after w e"
  by (simp_all add: env_after_def)

lemma launcher_ignores_child_status:
  "launcher debug args (w\<lparr>os_child_exit_status := s\<rparr>) (start d e) = launcher debug args w (start d e)"
proof (cases rule: launcher_cases [where w = w and debug = debug and e = e])
  case image_fails
  then show ?thesis by (simp add: launcher_image_fails)
next
  case chdir_fails
  then show ?thesis by (simp add: launcher_chdir_fails)
next
  case overrun
  then show ?thesis by (simp add: launcher_overrun)
next
  case missing
  then show ?thesis by (simp add: launcher_interpreter_missing)
next
  case spawn_fails
  then show ?thesis by (simp add: launcher_spawn_fails)
next
  case (spawned pi)
  then show ?thesis by (simp add: launcher_spawned [where pi = pi])
qed

lemma launcher_ignores_last_error:
  assumes "launcher debug args w (start d e) = (st', out)"
    and "\<not> list_ex is_spawn_failure (events st')"
  shows "launcher debug args (w\<lparr>os_last_error := x\<rparr>) (start d e) = (st', out)"
  using assms
proof (cases rule: launcher_result)
  case image_fails
  then show ?thesis by (simp add: launcher_image_fails)
next
  case chdir_fails
  then show ?thesis by (simp add: launcher_chdir_fails)
next
  case overrun
  then show ?thesis by (simp add: launcher_overrun)
next
  case missing
  then show ?thesis by (simp add: launcher_interpreter_missing)
next
  case spawn_fails
  with assms(2) show ?thesis by simp
next
  case (spawned pi)
  then show ?thesis by (simp add: launcher_spawned [where pi = pi])
qed

subsection \<open>The base directory\<close>

lemma dir_part_last:
  assumes "dropWhile (\<lambda>c. \<not> is_sep c) xs \<noteq> []"
  shows "is_sep (last (rev (dropWhile (\<lambda>c. \<not> is_sep c) xs)))"
proof -
  have "\<not> \<not> is_sep (hd (dropWhile (\<lambda>c. \<not> is_sep c) xs))"
    using assms by (rule hd_dropWhile)
  with assms show ?thesis by (simp add: last_rev)
qed

lemma makepath_dir:
  "dir = [] \<or> is_sep (last dir) \<Longrightarrow>
   (case dir of [] \<Rightarrow> []
    | c # cs \<Rightarrow> if is_sep (last (c # cs)) then c # cs else (c # cs) @ [backslash]) = dir"
  by (cases dir) auto

lemma base_directory_eq:
  "base_directory p =
     (if 2 \<le> length p \<and> p ! 1 = CHR '':''
      then take 2 p @ rev (dropWhile (\<lambda>c. \<not> is_sep c) (rev (drop 2 p)))
      else rev (dropWhile (\<lambda>c. \<not> is_sep c) (rev p)))"
proof -
  have d: "\<And>xs. (case rev (dropWhile (\<lambda>c. \<not> is_sep c) xs) of [] \<Rightarrow> []
    | c # cs \<Rightarrow> if is_sep (last (c # cs)) then c # cs else (c # cs) @ [backslash])
      = rev (dropWhile (\<lambda>c. \<not> is_sep c) xs)"
    by (rule makepath_dir) (use dir_part_last in auto)
  show ?thesis
  proof (cases "2 \<le> length p \<and> p ! 1 = CHR '':''")
    case True
    then obtain a r where p: "p = a # CHR '':'' # r"
      by (cases p; cases "tl p") auto
    show ?thesis
      unfolding p base_directory_def splitpath_def makepath_def Let_def
      by (simp add: d)
  next
    case False
    then show ?thesis
      unfolding base_directory_def splitpath_def makepath_def Let_def
      by (auto simp: d)
  qed
qed

lemma dir_part_keeps:
  assumes "is_sep c"
  shows "\<exists>ys. rev (dropWhile (\<lambda>c. \<not> is_sep c) (rev (x @ c # r))) = x @ c # ys
             \<and> (ys = [] \<or> is_sep (last ys)) \<and> prefix ys r"
proof (cases "\<forall>a\<in>set r. \<not> is_sep a")
  case True
  then have "dropWhile (\<lambda>c. \<not> is_sep c) (rev r @ c # rev x) = c # rev x"
    using assms by (simp add: dropWhile_append)
  then show ?thesis by simp
next
  case False
  then have "dropWhile (\<lambda>c. \<not> is_sep c) (rev r @ c # rev x)
             = dropWhile (\<lambda>c. \<not> is_sep c) (rev r) @ c # rev x"
    by (auto simp: dropWhile_append)
  moreover from False have ne: "dropWhile (\<lambda>c. \<not> is_sep c) (rev r) \<noteq> []"
    by (simp add: dropWhile_eq_Nil_conv)
  moreover have "prefix (rev (dropWhile (\<lambda>c. \<not> is_sep c) (rev r))) r"
  proof -
    have "rev r = takeWhile (\<lambda>c. \<not> is_sep c) (rev r) @ dropWhile (\<lambda>c. \<not> is_sep c) (rev r)"
      by simp
    then have "r = rev (dropWhile (\<lambda>c. \<not> is_sep c) (rev r))
                   @ rev (takeWhile (\<lambda>c. \<not> is_sep c) (rev r))"
      by (metis rev_append rev_rev_ident)
    then show ?thesis by (metis prefixI)
  qed
  ultimately show ?thesis
    using dir_part_last [OF ne] by simp
qed

lemma dir_part_file:
  assumes "is_sep s" "\<forall>c\<in>set f. \<not> is_sep c"
  shows "rev (dropWhile (\<lambda>c. \<not> is_sep c) (rev (y @ s # f))) = y @ [s]"
  using assms by (simp add: dropWhile_append)

lemma base_directory_drive_file:
  assumes "is_sep s" "\<forall>c\<in>set f. \<not> is_sep c"
  shows "base_directory (a # CHR '':'' # y @ s # f) = a # CHR '':'' # y @ [s]"
  using dir_part_file [OF assms, of y] by (simp add: base_directory_eq)

lemma fully_qualified_seps: "is_sep a \<Longrightarrow> is_sep b \<Longrightarrow> fully_qualified (a # b # q)"
  by (cases q) auto

lemma fully_qualified_append: "fully_qualified p \<Longrightarrow> fully_qualified (p @ q)"
  by (induction p rule: fully_qualified.induct) (auto simp: fully_qualified_seps)

lemma fully_qualified_take: "3 \<le> n \<Longrightarrow> fully_qualified p \<Longrightarrow> fully_qualified (take n p)"
  by (induction p rule: fully_qualified.induct) (auto simp: take_Cons' neq_Nil_conv)

lemma is_sep_not_colon: "is_sep b \<Longrightarrow> b \<noteq> CHR '':''"
  by (auto simp: is_sep_def)

lemma base_directory_props:
  assumes "fully_qualified p"
  shows "base_directory p \<noteq> [] \<and> is_sep (last (base_directory p))
       \<and> prefix (base_directory p) p \<and> fully_qualified (base_directory p)"
  using assms
proof (induction p rule: fully_qualified.induct)
  case (1 a b c p)
  show ?case
  proof (cases "b = CHR '':''")
    case True
    with 1 have c: "is_sep c" by (auto dest: is_sep_not_colon)
    from dir_part_keeps [OF c, of "[]" p] obtain ys where
      ys: "rev (dropWhile (\<lambda>c. \<not> is_sep c) (rev (c # p))) = c # ys"
        "ys = [] \<or> is_sep (last ys)" "prefix ys p"
      by auto
    have "base_directory (a # b # c # p) = a # b # c # ys"
      using True ys(1) by (simp add: base_directory_eq)
    with ys c True show ?thesis by auto
  next
    case False
    with 1 have ab: "is_sep a" "is_sep b" by auto
    from dir_part_keeps [OF ab(2), of "[a]" "c # p"] obtain ys where
      ys: "rev (dropWhile (\<lambda>c. \<not> is_sep c) (rev (a # b # c # p))) = a # b # ys"
        "ys = [] \<or> is_sep (last ys)" "prefix ys (c # p)"
      by auto
    have "base_directory (a # b # c # p) = a # b # ys"
      using False ys(1) by (simp add: base_directory_eq)
    with ys ab show ?thesis by (auto simp: fully_qualified_seps)
  qed
next
  case (2 a b)
  then have ab: "is_sep a" "is_sep b" by auto
  then have "base_directory [a, b] = [a, b]"
    by (auto simp: base_directory_eq dest: is_sep_not_colon)
  with ab show ?case by simp
qed simp_all

lemma exe_path_Some: "os_image_path w = Some p \<Longrightarrow> exe_path w = take (MAX_PATH - 1) p"
  by (simp add: exe_path_def)

lemma base_dir_props:
  assumes "os_image_path w = Some p" "fully_qualified p"
  shows "base_dir w \<noteq> []" "is_sep (last (base_dir w))" "prefix (base_dir w) p"
    "fully_qualified (base_dir w)"
proof -
  have fq: "fully_qualified (exe_path w)"
    using assms by (simp add: exe_path_Some fully_qualified_take MAX_PATH_def)
  from base_directory_props [OF fq]
  show "base_dir w \<noteq> []" "is_sep (last (base_dir w))" "fully_qualified (base_dir w)"
    by (simp_all add: base_dir_def)
  have "prefix (base_dir w) (exe_path w)"
    using base_directory_props [OF fq] by (simp add: base_dir_def)
  moreover have "prefix (exe_path w) p"
    using assms(1) by (simp add: exe_path_Some take_is_prefix)
  ultimately show "prefix (base_dir w) p" by (rule prefix_order.trans)
qed

subsection \<open>The pattern\<close>

lemma lang_SeqI: "u \<in> lang r1 \<Longrightarrow> v \<in> lang r2 \<Longrightarrow> u @ v \<in> lang (Seq r1 r2)"
  by auto

lemma plus_not_chr:
  "X \<noteq> [] \<Longrightarrow> c \<notin> set X \<Longrightarrow> X \<in> lang (Plus (NotChr c))"
proof (induction X rule: list_nonempty_induct)
  case (single x)
  then have "[x] \<in> lang (NotChr c)" by auto
  then show ?case by (auto intro: plus_lang.one)
next
  case (cons x xs)
  then have "[x] \<in> lang (NotChr c)" "xs \<in> plus_lang (lang (NotChr c))" by auto
  then have "[x] @ xs \<in> plus_lang (lang (NotChr c))" by (rule plus_lang.more)
  then show ?case by simp
qed

lemma cmd_line_matches:
  assumes "X \<noteq> []" "dquote \<notin> set X"
  shows "fmt_cmdLine (fmt_pythonPath debug (X @ [backslash])) (fmt_bootScript (X @ [backslash]))
         \<in> lang cmd_pattern"
proof -
  let ?w = "if debug then [] else ''w''"
  have w: "?w \<in> lang (Opt (Lit ''w''))" by simp
  have X: "X \<in> lang (Plus (NotChr dquote))" using assms by (rule plus_not_chr)
  have "[dquote] @ X @ ([backslash] @ ''base_env'' @ [backslash] @ ''python'') @ ?w
        @ (''.exe'' @ [dquote] @ '' '' @ [dquote]) @ X @ ([backslash] @ ''boot.py'' @ [dquote])
        \<in> lang cmd_pattern"
    unfolding cmd_pattern_def
    by (intro lang_SeqI w X) simp_all
  moreover have "fmt_cmdLine (fmt_pythonPath debug (X @ [backslash])) (fmt_bootScript (X @ [backslash]))
      = [dquote] @ X @ ([backslash] @ ''base_env'' @ [backslash] @ ''python'') @ ?w
        @ (''.exe'' @ [dquote] @ '' '' @ [dquote]) @ X @ ([backslash] @ ''boot.py'' @ [dquote])"
    by (simp add: fmt_cmdLine_def fmt_pythonPath_def fmt_bootScript_def interpreter_name_def)
  ultimately show ?thesis by simp
qed

lemma native_base_dir:
  assumes "os_image_path w = Some p" "fully_qualified p" "CHR ''/'' \<notin> set p" "dquote \<notin> set p"
  shows "\<exists>X. base_dir w = X @ [backslash] \<and> X \<noteq> [] \<and> dquote \<notin> set X"
proof -
  note b = base_dir_props [OF assms(1,2)]
  from b(3) have sub: "set (base_dir w) \<subseteq> set p" by (auto simp: prefix_def)
  from b(1) have bl: "base_dir w = butlast (base_dir w) @ [last (base_dir w)]" by simp
  from b(1) have "last (base_dir w) \<in> set (base_dir w)" by simp
  with sub assms(3) have "last (base_dir w) \<noteq> CHR ''/''" by auto
  with b(2) have l: "last (base_dir w) = backslash" by (simp add: is_sep_def)
  have "butlast (base_dir w) \<noteq> []"
    using b(4) by (cases "base_dir w" rule: fully_qualified.cases) auto
  moreover have "dquote \<notin> set (butlast (base_dir w))"
    using sub assms(4) by (auto dest: in_set_butlastD)
  ultimately show ?thesis using bl l by metis
qed

lemma plus_lang_not_chr:
  "u \<in> plus_lang {[d] | d. d \<noteq> c} \<Longrightarrow> u \<noteq> [] \<and> c \<notin> set u"
  by (induction rule: plus_lang.induct) auto

lemma lang_cmd_pattern_elim:
  assumes "s \<in> lang cmd_pattern"
  obtains u1 opt u2 where
    "u1 \<noteq> []" "dquote \<notin> set u1" "u2 \<noteq> []" "dquote \<notin> set u2" "opt = [] \<or> opt = ''w''"
    "s = [dquote] @ u1 @ ([backslash] @ ''base_env'' @ [backslash] @ ''python'') @ opt
         @ (''.exe'' @ [dquote] @ '' '' @ [dquote]) @ u2 @ ([backslash] @ ''boot.py'' @ [dquote])"
proof -
  from assms obtain u1 opt u2 where
    u: "u1 \<in> plus_lang {[d] | d. d \<noteq> dquote}" "u2 \<in> plus_lang {[d] | d. d \<noteq> dquote}"
      "opt = [] \<or> opt = ''w''"
    and s: "s = [dquote] @ u1 @ ([backslash] @ ''base_env'' @ [backslash] @ ''python'') @ opt
         @ (''.exe'' @ [dquote] @ '' '' @ [dquote]) @ u2 @ ([backslash] @ ''boot.py'' @ [dquote])"
    unfolding cmd_pattern_def by auto
  from u(1,2) have "u1 \<noteq> []" "dquote \<notin> set u1" "u2 \<noteq> []" "dquote \<notin> set u2"
    by (auto dest: plus_lang_not_chr)
  then show ?thesis using u(3) s by (intro that [of u1 u2 opt])
qed

lemma takeWhile_upto:
  "\<forall>x\<in>set xs. P x \<Longrightarrow> \<not> P y \<Longrightarrow> takeWhile P (xs @ y # ys) = xs"
  by (induction xs) auto

lemma cmd_line_matches_only:
  assumes "fmt_cmdLine (fmt_pythonPath debug cwd) (fmt_bootScript cwd) \<in> lang cmd_pattern"
  shows "2 \<le> length cwd \<and> last cwd = backslash \<and> dquote \<notin> set cwd"
proof -
  let ?I = "''base_env'' @ [backslash] @ interpreter_name debug"
  from assms obtain u1 opt u2 where
    u: "u1 \<noteq> []" "dquote \<notin> set u1" "u2 \<noteq> []" "dquote \<notin> set u2" "opt = [] \<or> opt = ''w''"
    and "fmt_cmdLine (fmt_pythonPath debug cwd) (fmt_bootScript cwd)
         = [dquote] @ u1 @ ([backslash] @ ''base_env'' @ [backslash] @ ''python'') @ opt
           @ (''.exe'' @ [dquote] @ '' '' @ [dquote]) @ u2 @ ([backslash] @ ''boot.py'' @ [dquote])"
    by (rule lang_cmd_pattern_elim)
  then have eq: "(cwd @ ?I) @ dquote # ('' '' @ [dquote] @ cwd @ ''boot.py'' @ [dquote])
       = (u1 @ ([backslash] @ ''base_env'' @ [backslash] @ ''python'') @ opt @ ''.exe'')
         @ dquote # ('' '' @ [dquote] @ u2 @ ([backslash] @ ''boot.py'' @ [dquote]))"
    by (simp add: fmt_cmdLine_def fmt_pythonPath_def fmt_bootScript_def)
  have nI: "dquote \<notin> set ?I" by (simp add: interpreter_name_def)
  have nR: "dquote \<notin> set (u1 @ ([backslash] @ ''base_env'' @ [backslash] @ ''python'') @ opt @ ''.exe'')"
    using u(2,5) by auto
  have cnt: "length (filter (\<lambda>c. c = dquote) cwd) = 0"
  proof -
    have f1: "filter (\<lambda>c. c = dquote) u1 = []" "filter (\<lambda>c. c = dquote) u2 = []"
      "filter (\<lambda>c. c = dquote) opt = []"
      using u(2,4,5) by (auto simp: filter_empty_conv)
    from eq have "length (filter (\<lambda>c. c = dquote)
        ((cwd @ ?I) @ dquote # ('' '' @ [dquote] @ cwd @ ''boot.py'' @ [dquote])))
      = length (filter (\<lambda>c. c = dquote)
        ((u1 @ ([backslash] @ ''base_env'' @ [backslash] @ ''python'') @ opt @ ''.exe'')
         @ dquote # ('' '' @ [dquote] @ u2 @ ([backslash] @ ''boot.py'' @ [dquote]))))"
      by (rule arg_cong)
    then show ?thesis
      by (simp add: f1 interpreter_name_def)
  qed
  then have nq: "dquote \<notin> set cwd" by (auto simp: filter_empty_conv)
  have t1: "takeWhile (\<lambda>c. c \<noteq> dquote)
          ((cwd @ ?I) @ dquote # ('' '' @ [dquote] @ cwd @ ''boot.py'' @ [dquote])) = cwd @ ?I"
    using nq nI by (intro takeWhile_upto) auto
  have t2: "takeWhile (\<lambda>c. c \<noteq> dquote)
          ((u1 @ ([backslash] @ ''base_env'' @ [backslash] @ ''python'') @ opt @ ''.exe'')
           @ dquote # ('' '' @ [dquote] @ u2 @ ([backslash] @ ''boot.py'' @ [dquote])))
        = u1 @ ([backslash] @ ''base_env'' @ [backslash] @ ''python'') @ opt @ ''.exe''"
    using nR by (intro takeWhile_upto) auto
  from eq have "takeWhile (\<lambda>c. c \<noteq> dquote)
          ((cwd @ ?I) @ dquote # ('' '' @ [dquote] @ cwd @ ''boot.py'' @ [dquote]))
      = takeWhile (\<lambda>c. c \<noteq> dquote)
          ((u1 @ ([backslash] @ ''base_env'' @ [backslash] @ ''python'') @ opt @ ''.exe'')
           @ dquote # ('' '' @ [dquote] @ u2 @ ([backslash] @ ''boot.py'' @ [dquote])))"
    by (rule arg_cong)
  then have front:
    "cwd @ ?I = u1 @ ([backslash] @ ''base_env'' @ [backslash] @ ''python'') @ opt @ ''.exe''"
    by (simp only: t1 t2)
  have "cwd = u1 @ [backslash]"
  proof (cases debug)
    case True
    show ?thesis
    proof (cases "opt = []")
      case True
      with front \<open>debug\<close> have "cwd @ (''base_env'' @ [backslash] @ ''python.exe'')
          = (u1 @ [backslash]) @ (''base_env'' @ [backslash] @ ''python.exe'')"
        by (simp add: interpreter_name_def)
      then show ?thesis by (simp only: append_same_eq)
    next
      case False
      with u(5) have "opt = ''w''" by simp
      with front \<open>debug\<close> have "cwd @ (''base_env'' @ [backslash] @ ''python.exe'')
          = (u1 @ [backslash, CHR ''b'']) @ (''ase_env'' @ [backslash] @ ''pythonw.exe'')"
        by (simp add: interpreter_name_def)
      then have "''base_env'' @ [backslash] @ ''python.exe'' = ''ase_env'' @ [backslash] @ ''pythonw.exe''"
        by (subst (asm) append_eq_append_conv) simp_all
      then show ?thesis by simp
    qed
  next
    case False
    show ?thesis
    proof (cases "opt = []")
      case True
      with front \<open>\<not> debug\<close> have "cwd @ (''base_env'' @ [backslash] @ ''pythonw.exe'')
          = u1 @ ([backslash] @ ''base_env'' @ [backslash] @ ''python.exe'')"
        by (simp add: interpreter_name_def)
      then have "''base_env'' @ [backslash] @ ''pythonw.exe''
          = [backslash] @ ''base_env'' @ [backslash] @ ''python.exe''"
        by (subst (asm) append_eq_append_conv) simp_all
      then show ?thesis by simp
    next
      case F: False
      with u(5) have "opt = ''w''" by simp
      with front \<open>\<not> debug\<close> have "cwd @ (''base_env'' @ [backslash] @ ''pythonw.exe'')
          = (u1 @ [backslash]) @ (''base_env'' @ [backslash] @ ''pythonw.exe'')"
        by (simp add: interpreter_name_def)
      then show ?thesis by (simp only: append_same_eq)
    qed
  qed
  with u(1) nq show ?thesis by (cases u1) auto
qed

lemma cmd_line_matches_iff:
  "fmt_cmdLine (fmt_pythonPath debug cwd) (fmt_bootScript cwd) \<in> lang cmd_pattern
   \<longleftrightarrow> 2 \<le> length cwd \<and> last cwd = backslash \<and> dquote \<notin> set cwd"
proof
  assume "fmt_cmdLine (fmt_pythonPath debug cwd) (fmt_bootScript cwd) \<in> lang cmd_pattern"
  then show "2 \<le> length cwd \<and> last cwd = backslash \<and> dquote \<notin> set cwd"
    by (rule cmd_line_matches_only)
next
  assume a: "2 \<le> length cwd \<and> last cwd = backslash \<and> dquote \<notin> set cwd"
  then have ne: "cwd \<noteq> []" by auto
  with a have c: "cwd = butlast cwd @ [backslash]" by (metis append_butlast_last_id)
  from a have "butlast cwd \<noteq> []" by (cases cwd; cases "tl cwd") auto
  moreover from a have "dquote \<notin> set (butlast cwd)" by (auto dest: in_set_butlastD)
  ultimately have "fmt_cmdLine (fmt_pythonPath debug (butlast cwd @ [backslash]))
      (fmt_bootScript (butlast cwd @ [backslash])) \<in> lang cmd_pattern"
    by (rule cmd_line_matches)
  with c show "fmt_cmdLine (fmt_pythonPath debug cwd) (fmt_bootScript cwd) \<in> lang cmd_pattern"
    by simp
qed

lemma fully_qualified_derived:
  "fully_qualified (fmt_pythonPath debug cwd) \<and> fully_qualified (fmt_bootScript cwd)
   \<longleftrightarrow> fully_qualified cwd"
  by (cases cwd rule: fully_qualified.cases)
     (auto simp: fmt_pythonPath_def fmt_bootScript_def is_sep_def)

subsection \<open>The example runs\<close>

lemma base_directory_app: "base_directory (app_dir @ ''run.exe'') = app_dir"
  by (simp add: base_directory_def splitpath_def makepath_def app_dir_def is_sep_def)

lemma exe_path_os_ok: "exe_path os_ok = app_dir @ ''run.exe''"
  by (simp add: exe_path_def os_ok_def MAX_PATH_def app_dir_def)

lemma image_path_result_os_ok: "image_path_result os_ok = 14"
  by (simp add: image_path_result_def os_ok_def MAX_PATH_def app_dir_def)

lemma base_dir_os_ok: "base_dir os_ok = app_dir"
  by (simp add: base_dir_def exe_path_os_ok base_directory_app)

lemma length_app_dir: "length app_dir = 7"
  by (simp add: app_dir_def)

lemma os_ok_simps:
  "os_chdir_ok os_ok p = True"
  "os_file_attributes os_ok p = 0x20"
  "os_putenv_result os_ok s = 0"
  "os_create_process os_ok c f en dir = Some \<lparr>hProcess = 7, hThread = 8\<rparr>"
  "os_last_error os_ok = 0"
  by (simp_all add: os_ok_def)

lemma os_image_path_os_ok: "os_image_path os_ok = Some (app_dir @ ''run.exe'')"
  by (simp add: os_ok_def)

lemma fully_qualified_app: "fully_qualified (app_dir @ ''run.exe'')"
  by (simp add: app_dir_def is_sep_def)

lemma native_app: "CHR ''/'' \<notin> set (app_dir @ ''run.exe'')" "dquote \<notin> set (app_dir @ ''run.exe'')"
  by (simp_all add: app_dir_def)

lemma env_after_os_ok: "env_after os_ok e = e(''PYTHONPATH'' \<mapsto> app_dir @ ''site_packages;'' @ app_dir)"
  by (simp add: env_after_def env_put_def os_ok_simps base_dir_os_ok)

lemma fits_app_dir: "Suc (length (fmt_pythonPath debug app_dir)) \<le> MAX_PATH"
  by (simp add: length_fmt_pythonPath length_app_dir MAX_PATH_def)

lemma run_os_ok:
  "launcher debug args os_ok (start d e) =
     (\<lparr>cur_dir = app_dir,
       environ = e(''PYTHONPATH'' \<mapsto> app_dir @ ''site_packages;'' @ app_dir),
       events = [Ev_GetModuleFileName MAX_PATH 14,
                 Ev_SetCurrentDirectory app_dir True,
                 Ev_GetFileAttributes (fmt_pythonPath debug app_dir) 0x20,
                 Ev_putenv (fmt_pythonEnv app_dir) 0,
                 Ev_CreateProcess (fmt_cmdLine (fmt_pythonPath debug app_dir) (fmt_bootScript app_dir))
                   (flags_of debug) True]
                @ after_spawn_events debug \<lparr>hProcess = 7, hThread = 8\<rparr>,
       children = [\<lparr>command_line = fmt_cmdLine (fmt_pythonPath debug app_dir) (fmt_bootScript app_dir),
                    creation_flags = flags_of debug,
                    child_environ = e(''PYTHONPATH'' \<mapsto> app_dir @ ''site_packages;'' @ app_dir),
                    child_dir = app_dir\<rparr>],
       handles = (if debug then [7] else [])\<rparr>, Exit 0)"
proof -
  have 1: "exe_path os_ok \<noteq> []" by (simp add: exe_path_os_ok)
  have 2: "os_chdir_ok os_ok (base_dir os_ok)" by (simp add: os_ok_def)
  have 3: "length (fmt_pythonPath debug (base_dir os_ok)) + 1 \<le> MAX_PATH"
    by (simp add: base_dir_os_ok length_fmt_pythonPath length_app_dir MAX_PATH_def)
  have 4: "os_file_attributes os_ok (fmt_pythonPath debug (base_dir os_ok)) \<noteq> INVALID_FILE_ATTRIBUTES"
    by (simp add: os_ok_def INVALID_FILE_ATTRIBUTES_def)
  have 5: "os_create_process os_ok (cmd_line debug os_ok) (flags_of debug) (env_after os_ok e)
             (base_dir os_ok) = Some \<lparr>hProcess = 7, hThread = 8\<rparr>"
    by (simp add: os_ok_def)
  show ?thesis
    unfolding launcher_spawned [OF 1 2 3 4 5]
    by (simp add: os_ok_simps base_dir_os_ok exe_path_os_ok image_path_result_os_ok length_app_dir
        env_after_def env_put_def cmd_line_def)
qed

lemma run_no_image_path:
  "launcher debug args os_no_image_path (start d e) =
     (\<lparr>cur_dir = d, environ = e,
       events = Ev_GetModuleFileName MAX_PATH 0
                # report_events debug ''Failed to get executable path.'',
       children = [], handles = []\<rparr>, Exit 1)"
  by (rule launcher_image_fails) (simp add: exe_path_def os_no_image_path_def)

lemma run_interpreter_missing:
  "launcher debug args os_interpreter_missing (start d e) =
     (\<lparr>cur_dir = app_dir, environ = e,
       events = Ev_GetModuleFileName MAX_PATH 14
                # Ev_SetCurrentDirectory app_dir True
                # Ev_GetFileAttributes (fmt_pythonPath debug app_dir) INVALID_FILE_ATTRIBUTES
                # report_events debug (fmt_not_found (fmt_pythonPath debug app_dir)),
       children = [], handles = []\<rparr>, Exit 1)"
proof -
  have "launcher debug args os_interpreter_missing (start d e) =
     (\<lparr>cur_dir = base_dir os_interpreter_missing, environ = e,
       events = Ev_GetModuleFileName MAX_PATH (image_path_result os_interpreter_missing)
                # Ev_SetCurrentDirectory (base_dir os_interpreter_missing) True
                # Ev_GetFileAttributes (fmt_pythonPath debug (base_dir os_interpreter_missing))
                    INVALID_FILE_ATTRIBUTES
                # report_events debug
                    (fmt_not_found (fmt_pythonPath debug (base_dir os_interpreter_missing))),
       children = [], handles = []\<rparr>, Exit 1)"
    by (rule launcher_interpreter_missing)
       (simp_all add: os_interpreter_missing_def exe_path_os_ok base_dir_os_ok os_ok_simps
          fits_app_dir)
  then show ?thesis
    by (simp add: os_interpreter_missing_def exe_path_os_ok image_path_result_os_ok base_dir_os_ok length_app_dir)
qed

lemma os_last_error_spawn_fails: "os_last_error os_spawn_fails = 2"
  by (simp add: os_spawn_fails_def)

lemma fmt_d_2: "fmt_d 2 = ''2''" "digits 2 = ''2''"
  by (simp_all add: fmt_d_def digits.simps digit_def)

lemma run_spawn_fails:
  "launcher debug args os_spawn_fails (start d e) =
     (\<lparr>cur_dir = app_dir,
       environ = e(''PYTHONPATH'' \<mapsto> app_dir @ ''site_packages;'' @ app_dir),
       events = Ev_GetModuleFileName MAX_PATH 14
                # Ev_SetCurrentDirectory app_dir True
                # Ev_GetFileAttributes (fmt_pythonPath debug app_dir) 0x20
                # Ev_putenv (fmt_pythonEnv app_dir) 0
                # Ev_CreateProcess (fmt_cmdLine (fmt_pythonPath debug app_dir) (fmt_bootScript app_dir))
                    (flags_of debug) False
                # report_events debug (fmt_launch_failed 2),
       children = [], handles = []\<rparr>, Exit 1)"
proof -
  let ?w = os_spawn_fails
  have "launcher debug args ?w (start d e) =
     (\<lparr>cur_dir = base_dir ?w, environ = env_after ?w e,
       events = Ev_GetModuleFileName MAX_PATH (image_path_result ?w)
                # Ev_SetCurrentDirectory (base_dir ?w) True
                # Ev_GetFileAttributes (fmt_pythonPath debug (base_dir ?w))
                    (os_file_attributes ?w (fmt_pythonPath debug (base_dir ?w)))
                # Ev_putenv (fmt_pythonEnv (base_dir ?w))
                    (os_putenv_result ?w (fmt_pythonEnv (base_dir ?w)))
                # Ev_CreateProcess (cmd_line debug ?w) (flags_of debug) False
                # report_events debug (fmt_launch_failed (os_last_error ?w)),
       children = [], handles = []\<rparr>, Exit 1)"
    by (rule launcher_spawn_fails)
       (simp_all add: os_spawn_fails_def exe_path_os_ok base_dir_os_ok os_ok_simps
          fits_app_dir INVALID_FILE_ATTRIBUTES_def)
  then show ?thesis
    by (simp add: os_spawn_fails_def exe_path_os_ok image_path_result_os_ok base_dir_os_ok length_app_dir os_ok_simps
        env_after_os_ok cmd_line_def)
qed

lemma run_putenv_fails:
  "launcher debug args os_putenv_fails (start d e) =
     (\<lparr>cur_dir = app_dir, environ = e,
       events = [Ev_GetModuleFileName MAX_PATH 14,
                 Ev_SetCurrentDirectory app_dir True,
                 Ev_GetFileAttributes (fmt_pythonPath debug app_dir) 0x20,
                 Ev_putenv (fmt_pythonEnv app_dir) (- 1),
                 Ev_CreateProcess (fmt_cmdLine (fmt_pythonPath debug app_dir) (fmt_bootScript app_dir))
                   (flags_of debug) True]
                @ after_spawn_events debug \<lparr>hProcess = 7, hThread = 8\<rparr>,
       children = [\<lparr>command_line = fmt_cmdLine (fmt_pythonPath debug app_dir) (fmt_bootScript app_dir),
                    creation_flags = flags_of debug,
                    child_environ = e, child_dir = app_dir\<rparr>],
       handles = (if debug then [7] else [])\<rparr>, Exit 0)"
proof -
  let ?w = os_putenv_fails
  have e: "env_after ?w e = e"
    by (simp add: env_after_def env_put_def os_putenv_fails_def)
  have "launcher debug args ?w (start d e) =
     (\<lparr>cur_dir = base_dir ?w, environ = env_after ?w e,
       events = [Ev_GetModuleFileName MAX_PATH (image_path_result ?w),
                 Ev_SetCurrentDirectory (base_dir ?w) True,
                 Ev_GetFileAttributes (fmt_pythonPath debug (base_dir ?w))
                    (os_file_attributes ?w (fmt_pythonPath debug (base_dir ?w))),
                 Ev_putenv (fmt_pythonEnv (base_dir ?w))
                    (os_putenv_result ?w (fmt_pythonEnv (base_dir ?w))),
                 Ev_CreateProcess (cmd_line debug ?w) (flags_of debug) True]
                @ after_spawn_events debug \<lparr>hProcess = 7, hThread = 8\<rparr>,
       children = [\<lparr>command_line = cmd_line debug ?w, creation_flags = flags_of debug,
                    child_environ = env_after ?w e, child_dir = base_dir ?w\<rparr>],
       handles = remove1 (hThread \<lparr>hProcess = 7, hThread = 8\<rparr>)
                   (if debug then [hProcess \<lparr>hProcess = 7, hThread = 8\<rparr>,
                                   hThread \<lparr>hProcess = 7, hThread = 8\<rparr>]
                    else [hThread \<lparr>hProcess = 7, hThread = 8\<rparr>])\<rparr>, Exit 0)"
    by (rule launcher_spawned)
       (simp_all add: os_putenv_fails_def exe_path_os_ok base_dir_os_ok os_ok_simps
          fits_app_dir INVALID_FILE_ATTRIBUTES_def)
  then show ?thesis
    unfolding e
    by (simp add: os_putenv_fails_def exe_path_os_ok image_path_result_os_ok base_dir_os_ok length_app_dir os_ok_simps
        cmd_line_def)
qed

lemma length_long_dir: "length long_dir = 254"
  by (simp add: long_dir_def)

lemma exe_path_os_long_path: "exe_path os_long_path = long_dir @ ''r.exe''"
  by (simp add: exe_path_def os_long_path_def MAX_PATH_def length_long_dir)

lemma image_path_result_os_long_path: "image_path_result os_long_path = 259"
  by (simp add: image_path_result_def os_long_path_def MAX_PATH_def length_long_dir)

lemma base_dir_os_long_path: "base_dir os_long_path = long_dir"
proof -
  have "base_directory (CHR ''C'' # CHR '':'' # (backslash # replicate 250 (CHR ''a'')) @ backslash # ''r.exe'')
        = CHR ''C'' # CHR '':'' # (backslash # replicate 250 (CHR ''a'')) @ [backslash]"
    by (rule base_directory_drive_file) (simp_all add: is_sep_def)
  then show ?thesis
    by (simp add: base_dir_def exe_path_os_long_path long_dir_def)
qed

lemma os_chdir_ok_long_path: "os_chdir_ok os_long_path q"
  by (simp add: os_long_path_def os_ok_def)

lemma run_long_path:
  "launcher debug args os_long_path (start d e) =
     (\<lparr>cur_dir = long_dir, environ = e,
       events = [Ev_GetModuleFileName MAX_PATH 259, Ev_SetCurrentDirectory long_dir True],
       children = [], handles = []\<rparr>, Overrun)"
proof -
  have "launcher debug args os_long_path (start d e) =
     (\<lparr>cur_dir = base_dir os_long_path, environ = e,
       events = [Ev_GetModuleFileName MAX_PATH (image_path_result os_long_path),
                 Ev_SetCurrentDirectory (base_dir os_long_path) True],
       children = [], handles = []\<rparr>, Overrun)"
    by (rule launcher_overrun)
       (simp_all add: exe_path_os_long_path base_dir_os_long_path length_fmt_pythonPath
          length_long_dir MAX_PATH_def os_chdir_ok_long_path)
  then show ?thesis
    by (simp add: exe_path_os_long_path image_path_result_os_long_path base_dir_os_long_path
        length_long_dir)
qed

lemma exe_path_os_slash_path: "exe_path os_slash_path = slash_dir @ ''run.exe''"
  by (simp add: exe_path_def os_slash_path_def MAX_PATH_def slash_dir_def)

lemma image_path_result_os_slash_path: "image_path_result os_slash_path = 14"
  by (simp add: image_path_result_def os_slash_path_def MAX_PATH_def slash_dir_def)

lemma base_dir_os_slash_path: "base_dir os_slash_path = slash_dir"
  by (simp add: base_dir_def exe_path_os_slash_path base_directory_def splitpath_def
      makepath_def slash_dir_def is_sep_def)

lemma os_slash_path_simps:
  "os_chdir_ok os_slash_path q = True"
  "os_file_attributes os_slash_path q = 0x20"
  "os_putenv_result os_slash_path s = 0"
  "os_create_process os_slash_path c f en dir = Some \<lparr>hProcess = 7, hThread = 8\<rparr>"
  by (simp_all add: os_slash_path_def os_ok_def)

lemma run_slash_path:
  "launcher debug args os_slash_path (start d e) =
     (\<lparr>cur_dir = slash_dir,
       environ = e(''PYTHONPATH'' \<mapsto> slash_dir @ ''site_packages;'' @ slash_dir),
       events = [Ev_GetModuleFileName MAX_PATH 14,
                 Ev_SetCurrentDirectory slash_dir True,
                 Ev_GetFileAttributes (fmt_pythonPath debug slash_dir) 0x20,
                 Ev_putenv (fmt_pythonEnv slash_dir) 0,
                 Ev_CreateProcess
                   (fmt_cmdLine (fmt_pythonPath debug slash_dir) (fmt_bootScript slash_dir))
                   (flags_of debug) True]
                @ after_spawn_events debug \<lparr>hProcess = 7, hThread = 8\<rparr>,
       children = [\<lparr>command_line =
                      fmt_cmdLine (fmt_pythonPath debug slash_dir) (fmt_bootScript slash_dir),
                    creation_flags = flags_of debug,
                    child_environ = e(''PYTHONPATH'' \<mapsto> slash_dir @ ''site_packages;'' @ slash_dir),
                    child_dir = slash_dir\<rparr>],
       handles = (if debug then [7] else [])\<rparr>, Exit 0)"
proof -
  let ?w = os_slash_path
  have 1: "exe_path ?w \<noteq> []" by (simp add: exe_path_os_slash_path)
  have 2: "os_chdir_ok ?w (base_dir ?w)" by (simp add: os_slash_path_simps)
  have 3: "length (fmt_pythonPath debug (base_dir ?w)) + 1 \<le> MAX_PATH"
    by (simp add: base_dir_os_slash_path length_fmt_pythonPath slash_dir_def MAX_PATH_def)
  have 4: "os_file_attributes ?w (fmt_pythonPath debug (base_dir ?w)) \<noteq> INVALID_FILE_ATTRIBUTES"
    by (simp add: os_slash_path_simps INVALID_FILE_ATTRIBUTES_def)
  have 5: "os_create_process ?w (cmd_line debug ?w) (flags_of debug) (env_after ?w e)
             (base_dir ?w) = Some \<lparr>hProcess = 7, hThread = 8\<rparr>"
    by (simp add: os_slash_path_simps)
  show ?thesis
    unfolding launcher_spawned [OF 1 2 3 4 5]
    by (simp add: os_slash_path_simps base_dir_os_slash_path image_path_result_os_slash_path
        env_after_def env_put_def cmd_line_def)
qed

lemma last_app_dir: "last app_dir = backslash"
  by (simp add: app_dir_def)

section \<open>The claims\<close>

subsection \<open>C1: the exit code\<close>



subsection \<open>C2: the search-path variable\<close>

text \<open>
  C2, as amended. If \<^verbatim>\<open>_putenv\<close> returns 0, then after the environment-preparation stage
  the environment is the inherited one with \<^verbatim>\<open>PYTHONPATH\<close> set to the base directory
  followed by \<^verbatim>\<open>site_packages;\<close> and the base directory again, whatever value the
  variable had before; every other variable is as inherited.
\<close>

theorem pythonpath_overwritten:
  assumes "launcher debug args w (start d e) = (st', out)"
    and "Ev_putenv s 0 \<in> set (events st')"
  shows "environ st' = e(''PYTHONPATH'' \<mapsto> base_dir w @ ''site_packages;'' @ base_dir w)
       \<and> environ st' ''PYTHONPATH'' = Some (base_dir w @ ''site_packages;'' @ base_dir w)
       \<and> s = ''PYTHONPATH='' @ base_dir w @ ''site_packages;'' @ base_dir w"
  using assms
  by (cases rule: launcher_result)
     (auto simp: ev_defs env_after_def env_put_def fmt_pythonEnv_def split: if_splits)

theorem pythonpath_overwritten_witness:
  "Ev_putenv (fmt_pythonEnv app_dir) 0 \<in> set (events (fst (run_release os_ok env_V)))
   \<and> env_V ''PYTHONPATH'' = Some ''V''
   \<and> environ (fst (run_release os_ok env_V)) ''PYTHONPATH''
       = Some (app_dir @ ''site_packages;'' @ app_dir)
   \<and> environ (fst (run_release os_ok env_V)) ''PATH'' = Some ''W''"
  using pythonpath_overwritten [of False winmain_args os_ok "''D:''" env_V
      "fst (run_release os_ok env_V)" "snd (run_release os_ok env_V)" "fmt_pythonEnv app_dir"]
  by (simp add: run_release_def run_os_ok env_V_def base_dir_os_ok)

text \<open>
  C2 as stated does not hold in every run that passes the environment-preparation stage:
  when \<^verbatim>\<open>_putenv\<close> fails, the inherited value \<^verbatim>\<open>V\<close> stays, and the child gets it.
\<close>

theorem pythonpath_kept_counterexample:
  "list_ex is_putenv (events (fst (run_release os_putenv_fails env_V)))
   \<and> snd (run_release os_putenv_fails env_V) = Exit 0
   \<and> environ (fst (run_release os_putenv_fails env_V)) ''PYTHONPATH'' = Some ''V''
   \<and> environ (fst (run_release os_putenv_fails env_V)) ''PYTHONPATH''
       \<noteq> Some (base_dir os_putenv_fails @ ''site_packages;'' @ base_dir os_putenv_fails)
   \<and> map (\<lambda>c. child_environ c ''PYTHONPATH'') (children (fst (run_release os_putenv_fails env_V)))
       = [Some ''V'']"
  by (simp add: run_release_def run_putenv_fails env_V_def)

subsection \<open>C3: the command line\<close>

text \<open>
  C3, as amended. Process creation is called exactly when the image-path query, the
  working-directory call and the interpreter check succeed and the base directory is short
  enough for the interpreter path and its terminator to fit in \<^verbatim>\<open>MAX_PATH\<close> characters.
  The command line of every such call is a double quote, the base directory,
  \<^verbatim>\<open>base_env\pythonw.exe\<close> (\<^verbatim>\<open>python.exe\<close> in the debug build), a double quote, a space,
  a double quote, the base directory, \<^verbatim>\<open>boot.py\<close> and a double quote, and nothing else.
  It matches the pattern of the specification exactly when the base directory has at least
  two characters, ends in a backslash and has no double quote in it, and both quoted paths
  are fully qualified exactly when the base directory is. Both hold when the image path is
  fully qualified and has no slash and no double quote in it.
\<close>

theorem command_line_shape:
  assumes "launcher debug args w (start d e) = (st', out)"
  shows "(list_ex is_create_process (events st') \<longleftrightarrow>
            exe_path w \<noteq> [] \<and> os_chdir_ok w (base_dir w)
          \<and> length (base_dir w)
              + length (''base_env'' @ [backslash]
                        @ (if debug then ''python.exe'' else ''pythonw.exe'')) + 1 \<le> MAX_PATH
          \<and> os_file_attributes w (fmt_pythonPath debug (base_dir w)) \<noteq> INVALID_FILE_ATTRIBUTES)
       \<and> (Ev_CreateProcess c f ok \<in> set (events st') \<longrightarrow>
            c = [dquote] @ base_dir w @ ''base_env'' @ [backslash]
                @ (if debug then ''python.exe'' else ''pythonw.exe'') @ [dquote]
                @ '' '' @ [dquote] @ base_dir w @ ''boot.py'' @ [dquote]
          \<and> (c \<in> lang cmd_pattern \<longleftrightarrow>
               2 \<le> length (base_dir w) \<and> last (base_dir w) = backslash
               \<and> dquote \<notin> set (base_dir w))
          \<and> (fully_qualified (base_dir w @ ''base_env'' @ [backslash]
                                @ (if debug then ''python.exe'' else ''pythonw.exe''))
               \<and> fully_qualified (base_dir w @ ''boot.py'')
               \<longleftrightarrow> fully_qualified (base_dir w))
          \<and> (os_image_path w = Some p \<and> fully_qualified p \<and> CHR ''/'' \<notin> set p
               \<and> dquote \<notin> set p \<longrightarrow>
               c \<in> lang cmd_pattern
               \<and> fully_qualified (base_dir w @ ''base_env'' @ [backslash]
                                   @ (if debug then ''python.exe'' else ''pythonw.exe''))
               \<and> fully_qualified (base_dir w @ ''boot.py'')))"
proof -
  have len: "length (base_dir w)
              + length (''base_env'' @ [backslash]
                        @ (if debug then ''python.exe'' else ''pythonw.exe'')) + 1
             = length (fmt_pythonPath debug (base_dir w)) + 1"
    by (simp add: fmt_pythonPath_def interpreter_name_def)
  have called: "list_ex is_create_process (events st') \<longleftrightarrow>
            exe_path w \<noteq> [] \<and> os_chdir_ok w (base_dir w)
          \<and> length (base_dir w)
              + length (''base_env'' @ [backslash]
                        @ (if debug then ''python.exe'' else ''pythonw.exe'')) + 1 \<le> MAX_PATH
          \<and> os_file_attributes w (fmt_pythonPath debug (base_dir w)) \<noteq> INVALID_FILE_ATTRIBUTES"
    unfolding len by (rule create_process_called_iff [OF assms])
  have shape: "c = [dquote] @ base_dir w @ ''base_env'' @ [backslash]
                @ (if debug then ''python.exe'' else ''pythonw.exe'') @ [dquote]
                @ '' '' @ [dquote] @ base_dir w @ ''boot.py'' @ [dquote]
          \<and> (c \<in> lang cmd_pattern \<longleftrightarrow>
               2 \<le> length (base_dir w) \<and> last (base_dir w) = backslash
               \<and> dquote \<notin> set (base_dir w))
          \<and> (fully_qualified (base_dir w @ ''base_env'' @ [backslash]
                                @ (if debug then ''python.exe'' else ''pythonw.exe''))
               \<and> fully_qualified (base_dir w @ ''boot.py'')
               \<longleftrightarrow> fully_qualified (base_dir w))
          \<and> (os_image_path w = Some p \<and> fully_qualified p \<and> CHR ''/'' \<notin> set p
               \<and> dquote \<notin> set p \<longrightarrow>
               c \<in> lang cmd_pattern
               \<and> fully_qualified (base_dir w @ ''base_env'' @ [backslash]
                                   @ (if debug then ''python.exe'' else ''pythonw.exe''))
               \<and> fully_qualified (base_dir w @ ''boot.py''))"
    if ev: "Ev_CreateProcess c f ok \<in> set (events st')"
  proof -
    have "composed_from debug (base_dir w) (Ev_CreateProcess c f ok)"
      using events_composed_from_base [OF assms] ev by (auto simp: list_all_iff)
    then have c: "c = fmt_cmdLine (fmt_pythonPath debug (base_dir w)) (fmt_bootScript (base_dir w))"
      by simp
    have 1: "c = [dquote] @ base_dir w @ ''base_env'' @ [backslash]
               @ (if debug then ''python.exe'' else ''pythonw.exe'') @ [dquote]
               @ '' '' @ [dquote] @ base_dir w @ ''boot.py'' @ [dquote]"
      unfolding c
      by (simp add: fmt_cmdLine_def fmt_pythonPath_def fmt_bootScript_def interpreter_name_def)
    have 2: "c \<in> lang cmd_pattern \<longleftrightarrow>
               2 \<le> length (base_dir w) \<and> last (base_dir w) = backslash
               \<and> dquote \<notin> set (base_dir w)"
      unfolding c by (rule cmd_line_matches_iff)
    have 3: "fully_qualified (base_dir w @ ''base_env'' @ [backslash]
                                @ (if debug then ''python.exe'' else ''pythonw.exe''))
               \<and> fully_qualified (base_dir w @ ''boot.py'')
               \<longleftrightarrow> fully_qualified (base_dir w)"
      using fully_qualified_derived [of debug "base_dir w"]
      by (simp add: fmt_pythonPath_def fmt_bootScript_def interpreter_name_def)
    have 4: "2 \<le> length (base_dir w) \<and> last (base_dir w) = backslash
               \<and> dquote \<notin> set (base_dir w) \<and> fully_qualified (base_dir w)"
      if "os_image_path w = Some p" "fully_qualified p" "CHR ''/'' \<notin> set p" "dquote \<notin> set p"
    proof -
      from native_base_dir [OF that] obtain X where
        X: "base_dir w = X @ [backslash]" "X \<noteq> []" "dquote \<notin> set X" by blast
      moreover have "fully_qualified (base_dir w)" using that(1,2) by (rule base_dir_props)
      ultimately show ?thesis by (cases X) auto
    qed
    from 1 2 3 4 show ?thesis by blast
  qed
  from called shape show ?thesis by blast
qed

theorem command_line_shape_witness:
  "list_ex is_create_process (events (fst (run_release os_ok env_V)))
   \<and> length (base_dir os_ok) + length (''base_env'' @ [backslash] @ ''pythonw.exe'') + 1 \<le> MAX_PATH
   \<and> Ev_CreateProcess
       ([dquote] @ app_dir @ ''base_env'' @ [backslash] @ ''pythonw.exe'' @ [dquote] @ '' ''
        @ [dquote] @ app_dir @ ''boot.py'' @ [dquote]) CREATE_NO_WINDOW True
       \<in> set (events (fst (run_release os_ok env_V)))
   \<and> os_image_path os_ok = Some (app_dir @ ''run.exe'')
   \<and> fully_qualified (app_dir @ ''run.exe'')
   \<and> CHR ''/'' \<notin> set (app_dir @ ''run.exe'') \<and> dquote \<notin> set (app_dir @ ''run.exe'')
   \<and> [dquote] @ app_dir @ ''base_env'' @ [backslash] @ ''pythonw.exe'' @ [dquote] @ '' ''
      @ [dquote] @ app_dir @ ''boot.py'' @ [dquote] \<in> lang cmd_pattern
   \<and> fully_qualified (app_dir @ ''base_env'' @ [backslash] @ ''pythonw.exe'')
   \<and> fully_qualified (app_dir @ ''boot.py'')"
  using command_line_shape [of False winmain_args os_ok "''D:''" env_V
      "fst (run_release os_ok env_V)" "snd (run_release os_ok env_V)"
      "[dquote] @ app_dir @ ''base_env'' @ [backslash] @ ''pythonw.exe'' @ [dquote] @ '' ''
       @ [dquote] @ app_dir @ ''boot.py'' @ [dquote]" CREATE_NO_WINDOW True "app_dir @ ''run.exe''"]
    native_app
  by (simp add: run_release_def run_os_ok os_image_path_os_ok fully_qualified_app
      fmt_cmdLine_def fmt_pythonPath_def fmt_bootScript_def interpreter_name_def flags_of_def
      after_spawn_events_def base_dir_os_ok length_app_dir MAX_PATH_def exe_path_os_ok
      os_ok_simps INVALID_FILE_ATTRIBUTES_def last_app_dir)

text \<open>
  C3 as stated does not hold for every base directory. With a base directory of 254
  characters the run sets the working directory and then writes past \<^verbatim>\<open>pythonPath\<close>: no
  process-creation call is made and no command line is defined. With the image path
  \<^verbatim>\<open>C:/app/run.exe\<close> the base directory is \<^verbatim>\<open>C:/app/\<close>, process creation is called, and
  the command line does not match the pattern, which asks for a backslash before
  \<^verbatim>\<open>base_env\<close>.
\<close>

theorem command_line_shape_counterexample:
  "length (base_dir os_long_path) = 254
   \<and> Ev_SetCurrentDirectory (base_dir os_long_path) True
       \<in> set (events (fst (run_release os_long_path env_V)))
   \<and> \<not> list_ex is_create_process (events (fst (run_release os_long_path env_V)))
   \<and> snd (run_release os_long_path env_V) = Overrun
   \<and> base_dir os_slash_path = slash_dir
   \<and> Ev_CreateProcess
       (fmt_cmdLine (fmt_pythonPath False slash_dir) (fmt_bootScript slash_dir))
       CREATE_NO_WINDOW True
       \<in> set (events (fst (run_release os_slash_path env_V)))
   \<and> fmt_cmdLine (fmt_pythonPath False slash_dir) (fmt_bootScript slash_dir)
       \<notin> lang cmd_pattern"
proof -
  have "fmt_cmdLine (fmt_pythonPath False slash_dir) (fmt_bootScript slash_dir)
       \<notin> lang cmd_pattern"
    by (simp add: cmd_line_matches_iff slash_dir_def)
  then show ?thesis
    by (simp add: run_release_def run_long_path run_slash_path base_dir_os_long_path
        base_dir_os_slash_path length_long_dir flags_of_def)
qed

subsection \<open>C4: the interpreter is missing\<close>

text \<open>
  C4. If the file-attributes query reports \<^verbatim>\<open>INVALID_FILE_ATTRIBUTES\<close>, the path queried is
  the interpreter path under the base directory, exactly one message is shown, which names
  that path and asks to make sure that \<^verbatim>\<open>base_env\<close> is configured correctly, the exit code
  is 1, no child exists and process creation was not called, and the environment is the
  inherited one, \<^verbatim>\<open>_putenv\<close> not having been called.
\<close>

theorem interpreter_missing_reported:
  assumes "launcher debug args w (start d e) = (st', out)"
    and "Ev_GetFileAttributes p INVALID_FILE_ATTRIBUTES \<in> set (events st')"
  shows "p = fmt_pythonPath debug (base_dir w)
       \<and> messages st' =
           [message_of debug
              (''Python environment not found at:'' @ [newline] @ p @ [newline, newline]
               @ ''Please ensure base_env is configured correctly.'')]
       \<and> out = Exit 1
       \<and> children st' = [] \<and> \<not> list_ex is_create_process (events st')
       \<and> environ st' = e \<and> \<not> list_ex is_putenv (events st')"
  using assms
  by (cases rule: launcher_result) (auto simp: ev_defs fmt_not_found_def split: if_splits)

theorem interpreter_missing_reported_witness:
  "Ev_GetFileAttributes (fmt_pythonPath False app_dir) INVALID_FILE_ATTRIBUTES
     \<in> set (events (fst (run_release os_interpreter_missing env_V)))
   \<and> messages (fst (run_release os_interpreter_missing env_V)) =
       [Ev_MessageBox
          (''Python environment not found at:'' @ [newline] @ app_dir @ ''base_env''
           @ [backslash] @ ''pythonw.exe'' @ [newline, newline]
           @ ''Please ensure base_env is configured correctly.'')
          ''Error'' (MB_OK OR MB_ICONERROR)]
   \<and> snd (run_release os_interpreter_missing env_V) = Exit 1
   \<and> children (fst (run_release os_interpreter_missing env_V)) = []
   \<and> environ (fst (run_release os_interpreter_missing env_V)) = env_V"
  using interpreter_missing_reported [of False winmain_args os_interpreter_missing "''D:''" env_V
      "fst (run_release os_interpreter_missing env_V)"
      "snd (run_release os_interpreter_missing env_V)" "fmt_pythonPath False app_dir"]
  by (simp add: run_release_def run_interpreter_missing message_of_def fmt_pythonPath_def
      interpreter_name_def)

subsection \<open>C5: process creation fails\<close>

text \<open>
  C5. If the call of the process-creation primitive fails, exactly one message is shown,
  \<^verbatim>\<open>Failed to launch process.\<close>, a line break and \<^verbatim>\<open>Error code: \<close> followed by the value
  of \<^verbatim>\<open>GetLastError\<close> printed with \<^verbatim>\<open>%d\<close>, and the exit code is 1. For a code below
  \<open>2 ^ 31\<close> the numeral printed is the decimal numeral of the code. A run in which process
  creation does not fail does not depend on the error code at all: no other message carries
  it.
\<close>

theorem spawn_failure_reported:
  assumes "launcher debug args w (start d e) = (st', out)"
  shows "(list_ex is_spawn_failure (events st') \<longrightarrow>
            messages st' =
              [message_of debug
                 (''Failed to launch process.'' @ [newline] @ ''Error code: ''
                  @ fmt_d (sint (os_last_error w)))]
          \<and> out = Exit 1 \<and> children st' = [])
       \<and> (os_last_error w < 2 ^ 31 \<longrightarrow>
            fmt_d (sint (os_last_error w)) = digits (unat (os_last_error w)))
       \<and> (\<not> list_ex is_spawn_failure (events st') \<longrightarrow>
            launcher debug args (w\<lparr>os_last_error := x\<rparr>) (start d e) = (st', out))"
proof -
  have "list_ex is_spawn_failure (events st') \<longrightarrow>
            messages st' =
              [message_of debug
                 (''Failed to launch process.'' @ [newline] @ ''Error code: ''
                  @ fmt_d (sint (os_last_error w)))]
          \<and> out = Exit 1 \<and> children st' = []"
    using assms
    by (cases rule: launcher_result) (auto simp: ev_defs fmt_launch_failed_def split: if_splits)
  with assms show ?thesis
    by (simp add: fmt_d_small launcher_ignores_last_error)
qed

theorem spawn_failure_reported_witness:
  "list_ex is_spawn_failure (events (fst (run_release os_spawn_fails env_V)))
   \<and> messages (fst (run_release os_spawn_fails env_V)) =
       [Ev_MessageBox (''Failed to launch process.'' @ [newline] @ ''Error code: 2'')
          ''Error'' (MB_OK OR MB_ICONERROR)]
   \<and> snd (run_release os_spawn_fails env_V) = Exit 1
   \<and> os_last_error os_spawn_fails < 2 ^ 31
   \<and> \<not> list_ex is_spawn_failure (events (fst (run_release os_ok env_V)))
   \<and> run_release (os_ok\<lparr>os_last_error := 5\<rparr>) env_V = run_release os_ok env_V"
  using spawn_failure_reported [of False winmain_args os_spawn_fails "''D:''" env_V
      "fst (run_release os_spawn_fails env_V)" "snd (run_release os_spawn_fails env_V)" 5]
    spawn_failure_reported [of False winmain_args os_ok "''D:''" env_V
      "fst (run_release os_ok env_V)" "snd (run_release os_ok env_V)" 5]
  by (simp add: run_release_def run_os_ok run_spawn_fails ev_defs flags_of_def
      os_last_error_spawn_fails fmt_d_2 fmt_launch_failed_def)

subsection \<open>C6: the arguments of the entry point\<close>

text \<open>
  C6. Two runs that differ only in the arguments of the entry point end in the same state
  (the same calls with the same command line and the same environment assignment, the same
  child) and with the same exit code.
\<close>

theorem launcher_ignores_arguments:
  "launcher debug args1 w st = launcher debug args2 w st"
  by (simp add: launcher_def)

subsection \<open>C7: after process creation\<close>

text \<open>
  C7. After a successful process creation the debug build calls
  \<^verbatim>\<open>WaitForSingleObject\<close> on the process handle with the timeout \<^verbatim>\<open>INFINITE\<close>, the
  call that returns when the child has exited, and then \<^verbatim>\<open>CloseHandle\<close> on the thread
  handle, and the release build calls \<^verbatim>\<open>CloseHandle\<close> on the process handle and on the
  thread handle, with no wait. These are the last calls of the run. The exit code is 0 in
  both builds, and the run is the same for every exit status of the child.
\<close>

theorem after_spawn_behaviour:
  assumes "launcher debug args w (start d e) = (st', out)"
    and "list_ex is_spawned (events st')"
  shows "\<exists>pi. os_create_process w (cmd_line debug w) (flags_of debug) (environ st') (cur_dir st')
               = Some pi
          \<and> calls_after is_spawned (events st') =
              [if debug then Ev_WaitForSingleObject (hProcess pi) INFINITE
               else Ev_CloseHandle (hProcess pi),
               Ev_CloseHandle (hThread pi)]
          \<and> handles st' =
              (if debug then remove1 (hThread pi) [hProcess pi, hThread pi] else [])
          \<and> out = Exit 0
          \<and> launcher debug args (w\<lparr>os_child_exit_status := s\<rparr>) (start d e) = (st', out)"
proof -
  have "\<exists>pi. os_create_process w (cmd_line debug w) (flags_of debug) (environ st') (cur_dir st')
               = Some pi
          \<and> calls_after is_spawned (events st') =
              [if debug then Ev_WaitForSingleObject (hProcess pi) INFINITE
               else Ev_CloseHandle (hProcess pi),
               Ev_CloseHandle (hThread pi)]
          \<and> handles st' =
              (if debug then remove1 (hThread pi) [hProcess pi, hThread pi] else [])
          \<and> out = Exit 0"
    using assms
    by (cases rule: launcher_result) (auto simp: ev_defs split: if_splits)
  moreover have "launcher debug args (w\<lparr>os_child_exit_status := s\<rparr>) (start d e) = (st', out)"
    using assms(1) by (simp add: launcher_ignores_child_status)
  ultimately show ?thesis by blast
qed

theorem after_spawn_behaviour_witness:
  "list_ex is_spawned (events (fst (run_debug os_ok env_V)))
   \<and> calls_after is_spawned (events (fst (run_debug os_ok env_V))) =
       [Ev_WaitForSingleObject 7 INFINITE, Ev_CloseHandle 8]
   \<and> handles (fst (run_debug os_ok env_V)) = [7]
   \<and> snd (run_debug os_ok env_V) = Exit 0
   \<and> run_debug (os_ok\<lparr>os_child_exit_status := 3\<rparr>) env_V = run_debug os_ok env_V
   \<and> list_ex is_spawned (events (fst (run_release os_ok env_V)))
   \<and> calls_after is_spawned (events (fst (run_release os_ok env_V))) =
       [Ev_CloseHandle 7, Ev_CloseHandle 8]
   \<and> handles (fst (run_release os_ok env_V)) = []
   \<and> snd (run_release os_ok env_V) = Exit 0"
  using after_spawn_behaviour [of True main_args os_ok "''D:''" env_V
      "fst (run_debug os_ok env_V)" "snd (run_debug os_ok env_V)" 3]
    after_spawn_behaviour [of False winmain_args os_ok "''D:''" env_V
      "fst (run_release os_ok env_V)" "snd (run_release os_ok env_V)" 3]
  by (simp add: run_release_def run_debug_def run_os_ok ev_defs os_ok_simps)

subsection \<open>C8: the base directory and the derived paths\<close>

text \<open>
  C8. When the image path is fully qualified, the base directory is not empty, ends with a
  path separator, is a prefix of the image path and is fully qualified. The interpreter
  path, the bootstrap script path and the packages directory are the base directory
  followed by \<^verbatim>\<open>base_env\python.exe\<close> (or \<^verbatim>\<open>pythonw.exe\<close>), \<^verbatim>\<open>boot.py\<close> and
  \<^verbatim>\<open>site_packages\<close>, with no separator added in between, and each of them is fully
  qualified. In every run, every path and string handed to a system call (the working
  directory, the path queried, the environment assignment, the command line) is composed
  from that base directory.
\<close>

theorem base_directory_invariant:
  assumes "os_image_path w = Some p" and "fully_qualified p"
    and "launcher debug args w (start d e) = (st', out)"
  shows "base_dir w \<noteq> [] \<and> is_sep (last (base_dir w)) \<and> prefix (base_dir w) p
       \<and> fully_qualified (base_dir w)
       \<and> fmt_pythonPath debug (base_dir w) =
           base_dir w @ ''base_env'' @ [backslash]
           @ (if debug then ''python.exe'' else ''pythonw.exe'')
       \<and> fmt_bootScript (base_dir w) = base_dir w @ ''boot.py''
       \<and> fmt_pythonEnv (base_dir w) =
           ''PYTHONPATH='' @ (base_dir w @ ''site_packages'') @ '';'' @ base_dir w
       \<and> fully_qualified (fmt_pythonPath debug (base_dir w))
       \<and> fully_qualified (fmt_bootScript (base_dir w))
       \<and> fully_qualified (base_dir w @ ''site_packages'')
       \<and> list_all (composed_from debug (base_dir w)) (events st')"
  using base_dir_props [OF assms(1,2)] events_composed_from_base [OF assms(3)]
  by (simp add: fmt_pythonPath_def fmt_bootScript_def fmt_pythonEnv_def interpreter_name_def
      fully_qualified_append)

theorem base_directory_invariant_witness:
  "os_image_path os_ok = Some (app_dir @ ''run.exe'')
   \<and> fully_qualified (app_dir @ ''run.exe'')
   \<and> base_dir os_ok = app_dir
   \<and> last (base_dir os_ok) = backslash
   \<and> fully_qualified (base_dir os_ok @ ''base_env'' @ [backslash] @ ''pythonw.exe'')
   \<and> fully_qualified (base_dir os_ok @ ''boot.py'')
   \<and> fully_qualified (base_dir os_ok @ ''site_packages'')
   \<and> list_all (composed_from False (base_dir os_ok)) (events (fst (run_release os_ok env_V)))"
  using base_directory_invariant [OF os_image_path_os_ok fully_qualified_app,
      of False winmain_args "''D:''" env_V
      "fst (run_release os_ok env_V)" "snd (run_release os_ok env_V)"]
  by (simp add: run_release_def run_os_ok os_image_path_os_ok fully_qualified_app
      base_dir_os_ok) (simp add: app_dir_def)

subsection \<open>C9: the result of \<^verbatim>\<open>_putenv\<close>\<close>

text \<open>
  C9. Whatever \<^verbatim>\<open>_putenv\<close> returns, the next call of the run is the process-creation
  primitive: the environment-preparation stage has no failure branch. When the return value
  is not 0 the environment is the inherited one, and a run that then creates the child
  exits 0, shows no message, and hands the child that unchanged environment. The example
  after the theorem is such a run: the child has no \<^verbatim>\<open>PYTHONPATH\<close>.
\<close>

theorem putenv_result_discarded:
  assumes "launcher debug args w (start d e) = (st', out)"
    and "Ev_putenv s r \<in> set (events st')"
  shows "s = fmt_pythonEnv (base_dir w) \<and> r = os_putenv_result w s
       \<and> (\<exists>ok. take 1 (calls_after is_putenv (events st')) =
                  [Ev_CreateProcess (cmd_line debug w) (flags_of debug) ok])
       \<and> environ st' =
           (if r \<noteq> 0 then e
            else e(''PYTHONPATH'' \<mapsto> base_dir w @ ''site_packages;'' @ base_dir w))
       \<and> (list_ex is_spawned (events st') \<longrightarrow>
            out = Exit 0 \<and> messages st' = []
            \<and> map child_environ (children st') = [environ st'])"
  using assms
  by (cases rule: launcher_result)
     (auto simp: ev_defs env_after_def env_put_def split: if_splits)

theorem putenv_result_discarded_witness:
  "Ev_putenv (fmt_pythonEnv app_dir) (- 1) \<in> set (events (fst (run_release os_putenv_fails env_none)))
   \<and> list_ex is_spawned (events (fst (run_release os_putenv_fails env_none)))
   \<and> snd (run_release os_putenv_fails env_none) = Exit 0
   \<and> messages (fst (run_release os_putenv_fails env_none)) = []
   \<and> map (\<lambda>c. child_environ c ''PYTHONPATH'') (children (fst (run_release os_putenv_fails env_none)))
       = [None]"
  using putenv_result_discarded [of False winmain_args os_putenv_fails "''D:''" env_none
      "fst (run_release os_putenv_fails env_none)" "snd (run_release os_putenv_fails env_none)"
      "fmt_pythonEnv app_dir" "- 1"]
  by (simp add: run_release_def run_putenv_fails ev_defs env_none_def)

subsection \<open>C10: the path buffers\<close>

text \<open>
  C10. When the base directory is at most \<^verbatim>\<open>MAX_PATH\<close> minus the length of
  \<^verbatim>\<open>base_env\pythonw.exe\<close> and its terminator long, each of the four \<^verbatim>\<open>sprintf\<close> calls
  into \<^verbatim>\<open>pythonPath\<close>, \<^verbatim>\<open>bootScript\<close>, \<^verbatim>\<open>cmdLine\<close> and \<^verbatim>\<open>pythonEnv\<close> stays
  within its buffer and the run does not end in an overrun. A run ends in an overrun
  exactly when the working directory was set and the interpreter path with its terminator
  is longer than \<^verbatim>\<open>MAX_PATH\<close>; in the release build this is every run that sets the
  working directory to a longer base directory: it shows no message and has no exit code,
  there is no truncation and no rejection.
\<close>

theorem path_buffers_in_bounds:
  assumes "launcher debug args w (start d e) = (st', out)"
  shows "(length (base_dir w)
            \<le> MAX_PATH - (length (''base_env'' @ [backslash] @ ''pythonw.exe'') + 1) \<longrightarrow>
            sprintf MAX_PATH (fmt_pythonPath debug (base_dir w))
              = Some (fmt_pythonPath debug (base_dir w))
          \<and> sprintf MAX_PATH (fmt_bootScript (base_dir w)) = Some (fmt_bootScript (base_dir w))
          \<and> sprintf (MAX_PATH * 4)
               (fmt_cmdLine (fmt_pythonPath debug (base_dir w)) (fmt_bootScript (base_dir w)))
              = Some (fmt_cmdLine (fmt_pythonPath debug (base_dir w)) (fmt_bootScript (base_dir w)))
          \<and> sprintf (MAX_PATH * 4) (fmt_pythonEnv (base_dir w)) = Some (fmt_pythonEnv (base_dir w))
          \<and> out \<noteq> Overrun)
       \<and> (out = Overrun \<longleftrightarrow>
            Ev_SetCurrentDirectory (base_dir w) True \<in> set (events st')
            \<and> MAX_PATH < length (fmt_pythonPath debug (base_dir w)) + 1)
       \<and> (\<not> debug
            \<and> MAX_PATH - (length (''base_env'' @ [backslash] @ ''pythonw.exe'') + 1)
                < length (base_dir w)
            \<and> Ev_SetCurrentDirectory (base_dir w) True \<in> set (events st') \<longrightarrow>
            out = Overrun \<and> messages st' = [])"
proof -
  have 1: "out = Overrun \<longleftrightarrow>
            Ev_SetCurrentDirectory (base_dir w) True \<in> set (events st')
            \<and> MAX_PATH < length (fmt_pythonPath debug (base_dir w)) + 1"
    using assms
    by (cases rule: launcher_result) (auto simp: ev_defs split: if_splits)
  have 2: "messages st' = []" if "out = Overrun"
    using assms that by (cases rule: launcher_result) (auto simp: ev_defs)
  have 3: "sprintf MAX_PATH (fmt_pythonPath debug (base_dir w))
              = Some (fmt_pythonPath debug (base_dir w))
          \<and> sprintf MAX_PATH (fmt_bootScript (base_dir w)) = Some (fmt_bootScript (base_dir w))
          \<and> sprintf (MAX_PATH * 4)
               (fmt_cmdLine (fmt_pythonPath debug (base_dir w)) (fmt_bootScript (base_dir w)))
              = Some (fmt_cmdLine (fmt_pythonPath debug (base_dir w)) (fmt_bootScript (base_dir w)))
          \<and> sprintf (MAX_PATH * 4) (fmt_pythonEnv (base_dir w)) = Some (fmt_pythonEnv (base_dir w))
          \<and> \<not> MAX_PATH < length (fmt_pythonPath debug (base_dir w)) + 1"
    if "length (base_dir w)
            \<le> MAX_PATH - (length (''base_env'' @ [backslash] @ ''pythonw.exe'') + 1)"
    using that
    by (simp add: sprintf_def length_fmt_pythonPath length_fmt_bootScript length_fmt_cmdLine
        length_fmt_pythonEnv MAX_PATH_def)
  have 4: "MAX_PATH < length (fmt_pythonPath debug (base_dir w)) + 1"
    if "\<not> debug" "MAX_PATH - (length (''base_env'' @ [backslash] @ ''pythonw.exe'') + 1)
                < length (base_dir w)"
    using that by (simp add: length_fmt_pythonPath MAX_PATH_def)
  from 1 2 3 4 show ?thesis by blast
qed

theorem path_buffers_in_bounds_witness:
  "length (base_dir os_ok) \<le> MAX_PATH - (length (''base_env'' @ [backslash] @ ''pythonw.exe'') + 1)
   \<and> sprintf MAX_PATH (fmt_pythonPath False (base_dir os_ok))
       = Some (app_dir @ ''base_env'' @ [backslash] @ ''pythonw.exe'')
   \<and> snd (run_release os_ok env_V) = Exit 0
   \<and> MAX_PATH - (length (''base_env'' @ [backslash] @ ''pythonw.exe'') + 1)
       < length (base_dir os_long_path)
   \<and> Ev_SetCurrentDirectory (base_dir os_long_path) True
       \<in> set (events (fst (run_release os_long_path env_V)))
   \<and> MAX_PATH < length (fmt_pythonPath False (base_dir os_long_path)) + 1
   \<and> snd (run_release os_long_path env_V) = Overrun
   \<and> messages (fst (run_release os_long_path env_V)) = []"
  using path_buffers_in_bounds [of False winmain_args os_ok "''D:''" env_V
      "fst (run_release os_ok env_V)" "snd (run_release os_ok env_V)"]
    path_buffers_in_bounds [of False winmain_args os_long_path "''D:''" env_V
      "fst (run_release os_long_path env_V)" "snd (run_release os_long_path env_V)"]
  by (simp add: run_release_def run_os_ok run_long_path base_dir_os_ok base_dir_os_long_path
      length_app_dir length_long_dir MAX_PATH_def length_fmt_pythonPath)
     (simp add: fmt_pythonPath_def interpreter_name_def)

end
